theory Spec2Isabelle
  imports Main
begin

section \<open>Python strings\<close>

text \<open>
  A Python string is a list of code points, which are integers as \<open>ord\<close> gives them.
  A literal of the source is written \<open>lit ''...''\<close>: the code points of its ASCII
  characters.
\<close>

type_synonym pystr = "int list"

definition lit :: "string \<Rightarrow> pystr" where
  "lit s = map of_char s"

text \<open>The line feed.\<close>

definition nl :: pystr where
  "nl = [10]"

definition is_upper :: "int \<Rightarrow> bool" where
  "is_upper c = (65 \<le> c \<and> c \<le> 90)"

definition ascii_lower :: "int \<Rightarrow> int" where
  "ascii_lower c = (if is_upper c then c + 32 else c)"

text \<open>
  \<open>s.lower()\<close>: an ASCII character becomes its lower-case letter whatever stands around
  it; what a character beyond ASCII becomes (one or more code points, for the capital
  sigma depending on its place in the string) is read from the interpreter's Unicode
  tables, the parameter \<open>ulower\<close>, applied to the string and the position.
\<close>

definition lower :: "(pystr \<Rightarrow> nat \<Rightarrow> pystr) \<Rightarrow> pystr \<Rightarrow> pystr" where
  "lower ulower s =
     concat (map (\<lambda>i. if s ! i < 128 then [ascii_lower (s ! i)] else ulower s i)
                 [0..<length s])"

text \<open>
  \<open>str.isspace\<close> of one character, which \<open>str.strip\<close> uses: the ASCII white space
  (9 to 13, 28 to 32) and the Unicode white space U+0085, U+00A0, U+1680, U+2000 to
  U+200A, U+2028, U+2029, U+202F, U+205F and U+3000.
\<close>

definition is_space :: "int \<Rightarrow> bool" where
  "is_space c =
     ((9 \<le> c \<and> c \<le> 13) \<or> (28 \<le> c \<and> c \<le> 32) \<or> c = 0x85 \<or> c = 0xA0 \<or> c = 0x1680 \<or>
      (0x2000 \<le> c \<and> c \<le> 0x200A) \<or> c = 0x2028 \<or> c = 0x2029 \<or> c = 0x202F \<or>
      c = 0x205F \<or> c = 0x3000)"

text \<open>\<open>s.strip()\<close>\<close>

definition strip :: "pystr \<Rightarrow> pystr" where
  "strip s = rev (dropWhile is_space (rev (dropWhile is_space s)))"

text \<open>\<open>word in text\<close> on strings: \<open>word\<close> occurs in \<open>text\<close> as a contiguous substring.\<close>

fun py_in :: "pystr \<Rightarrow> pystr \<Rightarrow> bool" where
  "py_in w [] = (w = [])"
| "py_in w (c # cs) = (take (length w) (c # cs) = w \<or> py_in w cs)"

text \<open>\<open>sep.join(xs)\<close>\<close>

fun join :: "pystr \<Rightarrow> pystr list \<Rightarrow> pystr" where
  "join sep [] = []"
| "join sep [x] = x"
| "join sep (x # y # ys) = x @ sep @ join sep (y # ys)"

definition digit :: "nat \<Rightarrow> int" where
  "digit d = 48 + int d"

text \<open>\<open>str(n)\<close> for a natural number.\<close>

function show_nat :: "nat \<Rightarrow> pystr" where
  "show_nat n = (if n < 10 then [digit n] else show_nat (n div 10) @ [digit (n mod 10)])"
  by pat_completeness auto
termination
  by (relation "measure (\<lambda>n. n)") auto

section \<open>Regular expressions of the source\<close>

text \<open>
  \<open>\w\<close> in a pattern on \<open>str\<close>: a character that is alphanumeric, or the underscore.
  On ASCII these are the letters, the digits and the underscore; beyond ASCII, whether a
  character is alphanumeric is read from the interpreter's Unicode tables, the parameter
  \<open>alnum\<close>.
\<close>

definition is_word :: "(int \<Rightarrow> bool) \<Rightarrow> int \<Rightarrow> bool" where
  "is_word alnum c =
     (if c < 128
      then (48 \<le> c \<and> c \<le> 57) \<or> (65 \<le> c \<and> c \<le> 90) \<or> (97 \<le> c \<and> c \<le> 122) \<or> c = 95
      else alnum c)"

text \<open>The class \<open>[\w\.-]\<close>: a word character, the dot (46) or the dash (45).\<close>

definition is_word_dot_dash :: "(int \<Rightarrow> bool) \<Rightarrow> int \<Rightarrow> bool" where
  "is_word_dot_dash alnum c = (is_word alnum c \<or> c = 46 \<or> c = 45)"

text \<open>
  The pattern of \<open>process_workflow_step\<close> is a sequence of literal characters and
  one-or-more repetitions of a character class between \<open>^\<close> and \<open>$\<close>.
  \<open>match_here\<close> is the backtracking matcher on such a sequence, anchored at the
  start of the text: a repetition first tries to take one more character and falls back to
  the rest of the pattern; the end of the pattern is \<open>$\<close>, which matches at the end of the
  text and before a line feed that ends the text. The result is the matched text
  (\<open>group(0)\<close>).
\<close>

datatype item = Lit int | Plus "int \<Rightarrow> bool"

fun match_here :: "item list \<Rightarrow> pystr \<Rightarrow> pystr option" where
  "match_here [] s = (if s = [] \<or> s = [10] then Some [] else None)"
| "match_here (Lit c # r) [] = None"
| "match_here (Lit c # r) (x # xs) =
     (if x = c then map_option ((#) x) (match_here r xs) else None)"
| "match_here (Plus P # r) [] = None"
| "match_here (Plus P # r) (x # xs) =
     (if P x then
        (case match_here (Plus P # r) xs of
           Some m \<Rightarrow> Some (x # m)
         | None \<Rightarrow> map_option ((#) x) (match_here r xs))
      else None)"

text \<open>
  \<open>email_pattern = r'^[\w\.-]+@[\w\.-]+\.\w+$'\<close>; the at sign is 64, the dot 46.
\<close>

definition email_pattern :: "(int \<Rightarrow> bool) \<Rightarrow> item list" where
  "email_pattern alnum =
     [Plus (is_word_dot_dash alnum), Lit 64, Plus (is_word_dot_dash alnum), Lit 46,
      Plus (is_word alnum)]"

text \<open>
  \<open>re.search(r'\{.*\}', text, re.DOTALL)\<close>: the match starts at the first opening
  brace (123) and, the repetition being greedy and the dot matching every character, ends
  at the last closing brace (125) after it; there is no match when no closing brace
  follows the first opening brace.
\<close>

definition re_search_object :: "pystr \<Rightarrow> pystr option" where
  "re_search_object text =
     (let t = dropWhile (\<lambda>c. c \<noteq> 123) text in
      if 125 \<in> set t then Some (rev (dropWhile (\<lambda>c. c \<noteq> 125) (rev t))) else None)"

section \<open>Python values and exceptions\<close>

text \<open>
  What a decoded JSON object can hold, and what the controller stores of it without
  looking at its type: \<open>None\<close>, a string, an integer, or another value (a float, a
  boolean, a list, a dictionary), which carries its \<open>str()\<close> rendering.
\<close>

datatype pyval = PNone | PStr pystr | PInt int | POther pystr

text \<open>\<open>str(v)\<close>, as an f-string renders a value.\<close>

fun py_str :: "pyval \<Rightarrow> pystr" where
  "py_str PNone = (lit ''None'')"
| "py_str (PStr s) = s"
| "py_str (PInt i) = (if i < 0 then (lit ''-'') @ show_nat (nat (- i)) else show_nat (nat i))"
| "py_str (POther r) = r"

text \<open>\<open>d.get(key, default)\<close>\<close>

definition get :: "(pystr \<rightharpoonup> pyval) \<Rightarrow> pystr \<Rightarrow> pyval \<Rightarrow> pyval" where
  "get d k dflt = (case d k of None \<Rightarrow> dflt | Some v \<Rightarrow> v)"

datatype exn =
    KeyError pystr
  | IndexError
  | TypeError
  | AttributeError
  | ValueError pystr
  | ExternalError pystr

section \<open>The controller's state\<close>

datatype role = User | Assistant

fun role_str :: "role \<Rightarrow> pystr" where
  "role_str User = (lit ''user'')"
| "role_str Assistant = (lit ''assistant'')"

record turn =
  role :: role
  content :: pystr
  timestamp :: pystr

text \<open>
  \<open>self.email_data\<close>: a dictionary whose keys are eight literals of the source. A key
  that is absent is \<open>None\<close> here; the values the controller writes under
  \<open>name\<close>, \<open>email\<close>, \<open>company\<close>, \<open>additional_details\<close>, \<open>department_email\<close> and
  \<open>user_preview\<close> are strings, the other two come from decoded JSON.
\<close>

record email_dict =
  name :: "pystr option"
  email :: "pystr option"
  company :: "pystr option"
  additional_details :: "pystr option"
  importance :: "pyval option"
  department_email :: "pystr option"
  user_preview :: "pystr option"
  subject :: "pyval option"

definition empty_email_data :: email_dict where
  "empty_email_data =
     \<lparr>name = None, email = None, company = None, additional_details = None,
      importance = None, department_email = None, user_preview = None, subject = None\<rparr>"

text \<open>
  The fields of \<open>EnhancedDepartmentRouterChatbot\<close> that the controller reads and writes.
  \<open>departments\<close> maps a department's name to its description and to its address, read
  from the process environment when the controller is built.
\<close>

record chatbot =
  chat_history :: "turn list"
  session_id :: pystr
  identified_department :: pyval
  department_confidence :: pyval
  email_workflow_active :: bool
  email_confirmation_pending :: bool
  original_user_question :: pystr
  bot_response_to_question :: pystr
  email_data :: email_dict
  current_step :: nat
  departments :: "(pystr \<times> pystr \<times> pystr option) list"
  sender_email :: "pystr option"

definition workflow_steps :: "pystr list" where
  "workflow_steps = [(lit ''name''), (lit ''email''), (lit ''company''), (lit ''additional_details'')]"

section \<open>The world outside the controller\<close>

text \<open>
  What one request sees of the clock, the process environment, the vector store, the
  language model, the JSON decoder, the mail service and the identifier generator.
  Each field is the outcome of one external call of the source; the theorems hold for
  every value of every field. The two HTML templates and the substitution of the
  double-asterisk emphasis are fixed string functions that no property below reads, and
  are fields as well; so are the two Unicode tables of the interpreter that
  \<open>str.lower\<close> and \<open>\w\<close> consult beyond ASCII.
\<close>

datatype llm_outcome = LlmRaises pystr | LlmText pystr

datatype http_outcome = TransportError pystr | HttpStatus nat

record resend_request =
  rq_authorization :: pystr
  rq_from :: pystr
  rq_to :: "pystr option"
  rq_subject :: pyval
  rq_html :: pystr
  rq_reply_to :: "pystr option"

record env =
  unicode_lower :: "pystr \<Rightarrow> nat \<Rightarrow> pystr"
  unicode_alnum :: "int \<Rightarrow> bool"
  now_user :: pystr
  now_assistant :: pystr
  getenv :: "pystr \<Rightarrow> pystr option"
  uuid4 :: pystr
  uuid4_init :: pystr
  chroma_connect :: bool
  kb_query :: "pystr \<Rightarrow> nat \<Rightarrow> pystr list option"
  chroma_add :: "pystr \<Rightarrow> pystr \<Rightarrow> bool"
  classify :: "pystr \<Rightarrow> pystr \<Rightarrow> pystr \<Rightarrow> llm_outcome"
  compose :: "chatbot \<Rightarrow> llm_outcome"
  json_loads :: "pystr \<Rightarrow> pystr + (pystr \<rightharpoonup> pyval)"
  resend_post :: "resend_request \<Rightarrow> http_outcome"
  bold_to_strong :: "pystr \<Rightarrow> pystr"
  create_department_email_html :: "chatbot \<Rightarrow> pyval \<Rightarrow> pystr \<Rightarrow> pystr"
  create_user_preview_html :: "pyval \<Rightarrow> pystr \<Rightarrow> pystr"

section \<open>Building a controller\<close>

text \<open>
  The state \<open>__init__\<close> leaves behind, once the clients of the language model and of
  the vector store are built. The identifier is the value \<open>uuid.uuid4()\<close> returns there.
\<close>

definition init_chatbot :: "env \<Rightarrow> chatbot" where
  "init_chatbot e =
     \<lparr>chat_history = [],
      session_id = uuid4_init e,
      identified_department = PNone,
      department_confidence = PInt 0,
      email_workflow_active = False,
      email_confirmation_pending = False,
      original_user_question = [],
      bot_response_to_question = [],
      email_data = empty_email_data,
      current_step = 0,
      departments =
        [((lit ''Sales''),
          (lit ''Project inquiries, pricing, proposals, and new business discussions''),
          getenv e (lit ''SALES_EMAIL'')),
         ((lit ''Technical Support''),
          (lit ''Website issues, hosting, performance, bugs, and technical assistance''),
          getenv e (lit ''SUPPORT_EMAIL'')),
         ((lit ''Customer Service''),
          (lit ''Client communication, service concerns, and ongoing project support''),
          getenv e (lit ''CUSTOMER_SERVICE_EMAIL'')),
         ((lit ''HR''),
          (lit ''Careers, recruitment, interviews, and internal policies''),
          getenv e (lit ''HR_EMAIL'')),
         ((lit ''Billing''),
          (lit ''Invoices, payments, contracts, and account-related queries''),
          getenv e (lit ''BILLING_EMAIL'')),
         ((lit ''General Inquiry''),
          (lit ''Partnerships, digital services, and general information''),
          getenv e (lit ''GENERAL_INQUIRY_EMAIL''))],
      sender_email = getenv e (lit ''SENDER_EMAIL'')\<rparr>"

section \<open>The classifier\<close>

text \<open>The dictionary returned when the response holds no JSON object.\<close>

definition fallback_unparsed :: "pystr \<rightharpoonup> pyval" where
  "fallback_unparsed =
     [(lit ''department'') \<mapsto> PStr (lit ''General Inquiry''),
      (lit ''confidence'') \<mapsto> PInt 50,
      (lit ''importance'') \<mapsto> PStr (lit ''Medium''),
      (lit ''user_response'') \<mapsto>
        PStr (lit ''I'll help you with your inquiry. Let me route this to the appropriate team.''),
      (lit ''reason'') \<mapsto> PStr (lit ''Unable to parse AI response'')]"

text \<open>The dictionary returned by the \<open>except\<close> branch, for the exception's message.\<close>

definition fallback_error :: "pystr \<Rightarrow> (pystr \<rightharpoonup> pyval)" where
  "fallback_error msg =
     [(lit ''department'') \<mapsto> PStr (lit ''General Inquiry''),
      (lit ''confidence'') \<mapsto> PInt 50,
      (lit ''importance'') \<mapsto> PStr (lit ''Medium''),
      (lit ''user_response'') \<mapsto>
        PStr (lit ''Thank you for your message. I'll make sure the right team looks into this.''),
      (lit ''reason'') \<mapsto> PStr ((lit ''Error: '') @ msg)]"

text \<open>
  \<open>analyze_with_gemini\<close>: the call of the model (or reading its text) raises, or the
  text holds no braces, or \<open>json.loads\<close> raises on what the braces enclose, or the
  decoded object is returned as it is.
\<close>

definition analyze_with_gemini ::
  "env \<Rightarrow> pystr \<Rightarrow> pystr \<Rightarrow> pystr \<Rightarrow> (pystr \<rightharpoonup> pyval)" where
  "analyze_with_gemini e user_message conversation_context knowledge_context =
     (case classify e user_message conversation_context knowledge_context of
        LlmRaises msg \<Rightarrow> fallback_error msg
      | LlmText text \<Rightarrow>
          (case re_search_object (strip text) of
             None \<Rightarrow> fallback_unparsed
           | Some obj \<Rightarrow>
               (case json_loads e obj of
                  Inl msg \<Rightarrow> fallback_error msg
                | Inr analysis \<Rightarrow> analysis)))"

section \<open>The email composer\<close>

text \<open>A value that is truthy as a string option: present and not empty.\<close>

definition truthy :: "pystr option \<Rightarrow> bool" where
  "truthy v = (case v of None \<Rightarrow> False | Some x \<Rightarrow> x \<noteq> [])"

text \<open>The parts built from the question and the slots when the composer fails.\<close>

definition fallback_parts :: "chatbot \<Rightarrow> (pystr \<rightharpoonup> pyval)" where
  "fallback_parts s =
     [(lit ''subject'') \<mapsto> PStr ((lit ''Support Request: '') @ take 50 (original_user_question s)),
      (lit ''greeting'') \<mapsto> PStr ((lit ''Dear '') @ py_str (identified_department s) @ (lit '' Team,'')),
      (lit ''paragraph1'') \<mapsto> PStr (lit ''I am reaching out regarding the following matter:''),
      (lit ''paragraph2'') \<mapsto> PStr (original_user_question s),
      (lit ''paragraph3'') \<mapsto>
        PStr (if truthy (additional_details (email_data s))
              then (lit ''Additional details: '') @ the (additional_details (email_data s))
              else []),
      (lit ''closing'') \<mapsto> PStr (lit ''Thank you for your assistance,'')]"

definition compose_parts :: "env \<Rightarrow> chatbot \<Rightarrow> (pystr \<rightharpoonup> pyval)" where
  "compose_parts e s =
     (case compose e s of
        LlmRaises msg \<Rightarrow> fallback_parts s
      | LlmText text \<Rightarrow>
          (case re_search_object (strip text) of
             None \<Rightarrow> fallback_parts s
           | Some obj \<Rightarrow>
               (case json_loads e obj of
                  Inl msg \<Rightarrow> fallback_parts s
                | Inr email_parts \<Rightarrow> email_parts)))"

text \<open>
  One round of the loop over \<open>paragraph1\<close> to \<open>paragraph3\<close>:
  \<open>email_parts.get(key, '').strip()\<close> raises on a value that is no string.
\<close>

definition paragraph_lines :: "(pystr \<rightharpoonup> pyval) \<Rightarrow> pystr \<Rightarrow> exn + pyval list" where
  "paragraph_lines email_parts key =
     (case get email_parts key (PStr []) of
        PStr p \<Rightarrow> Inr (if strip p \<noteq> [] then [PStr (strip p), PStr []] else [])
      | _ \<Rightarrow> Inl AttributeError)"

fun is_str :: "pyval \<Rightarrow> bool" where
  "is_str (PStr s) = True"
| "is_str v = False"

text \<open>\<open>sep.join(values)\<close> raises on an element that is no string.\<close>

definition join_values :: "pystr \<Rightarrow> pyval list \<Rightarrow> exn + pystr" where
  "join_values sep vs = (if list_all is_str vs then Inr (join sep (map py_str vs)) else Inl TypeError)"

text \<open>The lines after the closing: the model's signature, or the name and the company.\<close>

definition signature_lines :: "env \<Rightarrow> chatbot \<Rightarrow> (pystr \<rightharpoonup> pyval) \<Rightarrow> pyval list" where
  "signature_lines e s email_parts =
     (case email_parts (lit ''signature_name'') of
        Some sig \<Rightarrow>
          sig # (case email_parts (lit ''signature_contact'') of Some c \<Rightarrow> [c] | None \<Rightarrow> [])
      | None \<Rightarrow>
          PStr (case name (email_data s) of Some n \<Rightarrow> n | None \<Rightarrow> (lit ''User'')) #
          (if truthy (company (email_data s)) \<and>
              lower (unicode_lower e) (the (company (email_data s))) \<noteq> (lit ''individual'')
           then [PStr (the (company (email_data s)))] else []))"

text \<open>
  \<open>generate_intelligent_email\<close>: the preview, and the state with the two renderings
  and the subject stored; or the exception raised before anything is stored.
\<close>

definition generate_intelligent_email :: "env \<Rightarrow> chatbot \<Rightarrow> exn + chatbot \<times> pystr" where
  "generate_intelligent_email e s =
     (let email_parts = compose_parts e s;
          greeting = get email_parts (lit ''greeting'') (PStr (lit ''Dear Team,''))
      in case paragraph_lines email_parts (lit ''paragraph1'') of
           Inl x \<Rightarrow> Inl x
         | Inr p1 \<Rightarrow>
       (case paragraph_lines email_parts (lit ''paragraph2'') of
           Inl x \<Rightarrow> Inl x
         | Inr p2 \<Rightarrow>
       (case paragraph_lines email_parts (lit ''paragraph3'') of
           Inl x \<Rightarrow> Inl x
         | Inr p3 \<Rightarrow>
       (let body_paragraphs =
              [greeting, PStr []] @ p1 @ p2 @ p3 @
              [get email_parts (lit ''closing'') (PStr (lit ''Best regards,''))] @
              signature_lines e s email_parts
        in case join_values nl body_paragraphs of
             Inl x \<Rightarrow> Inl x
           | Inr joined \<Rightarrow>
               (let email_body_text = bold_to_strong e joined;
                    subj = get email_parts (lit ''subject'') (PStr (lit ''New Inquiry''));
                    department_email_html = create_department_email_html e s subj email_body_text;
                    user_preview_html = create_user_preview_html e subj email_body_text
                in Inr (s\<lparr>email_data := (email_data s)
                          \<lparr>department_email := Some department_email_html,
                           user_preview := Some user_preview_html,
                           subject := Some subj\<rparr>\<rparr>,
                        user_preview_html))))))"

section \<open>The email dispatcher\<close>

text \<open>
  The body of the \<open>try\<close> of \<open>send_email_to_department\<close>: every way it raises is a
  left value. A department that is no key of \<open>departments\<close> raises \<open>KeyError\<close>
  (\<open>TypeError\<close> for an unhashable value); \<open>raise_for_status\<close> raises on a status
  from 400 to 599.
\<close>

definition send_attempt :: "env \<Rightarrow> chatbot \<Rightarrow> pystr \<Rightarrow> exn + unit" where
  "send_attempt e s email_html =
     (if \<not> truthy (getenv e (lit ''RESEND_API_KEY''))
      then Inl (ExternalError (lit ''RESEND_API_KEY not configured''))
      else
        (case identified_department s of
           PStr d \<Rightarrow>
             (case map_of (departments s) d of
                None \<Rightarrow> Inl (KeyError d)
              | Some (description, recipient_email) \<Rightarrow>
                  (case resend_post e
                      \<lparr>rq_authorization = (lit ''Bearer '') @ the (getenv e (lit ''RESEND_API_KEY'')),
                       rq_from =
                         (lit ''Support Bot <'') @
                         (case sender_email s of None \<Rightarrow> (lit ''None'') | Some a \<Rightarrow> a) @ (lit ''>''),
                       rq_to = recipient_email,
                       rq_subject =
                         (case subject (email_data s) of
                            None \<Rightarrow> PStr ((lit ''New Request - '') @ d)
                          | Some v \<Rightarrow> v),
                       rq_html =
                         (case department_email (email_data s) of
                            None \<Rightarrow> email_html
                          | Some h \<Rightarrow> h),
                       rq_reply_to = email (email_data s)\<rparr> of
                     TransportError msg \<Rightarrow> Inl (ExternalError msg)
                   | HttpStatus code \<Rightarrow>
                       if 400 \<le> code \<and> code < 600
                       then Inl (ExternalError (lit ''HTTPError'')) else Inr ()))
         | v \<Rightarrow> Inl (KeyError (py_str v))))"

text \<open>\<open>send_email_to_department\<close>: \<open>except Exception\<close> turns every raise into \<open>False\<close>.\<close>

definition send_email_to_department :: "env \<Rightarrow> chatbot \<Rightarrow> pystr \<Rightarrow> bool" where
  "send_email_to_department e s email_html =
     (case send_attempt e s email_html of Inl x \<Rightarrow> False | Inr u \<Rightarrow> True)"

section \<open>The workflow step\<close>

text \<open>
  The characters beyond ASCII that open three literals of the source, as the file read as
  UTF-8 has them.
\<close>

definition mark_sent :: pystr where
  "mark_sent = [0x201A, 0xFA, 0xD6]"

definition mark_warning :: pystr where
  "mark_warning =
     [0x201A, 0xF6, 0x2020, 0xD4, 0x220F, 0xE8]"

definition mark_mail :: pystr where
  "mark_mail = [0xF8FF, 0xFC, 0xEC, 0xDF]"

text \<open>The dictionary a workflow step returns; an absent key is \<open>None\<close>.\<close>

record step_result =
  w_response :: pystr
  w_email_html :: "pystr option"
  w_complete :: bool
  w_email_sent :: "bool option"

text \<open>The replies of the first three steps.\<close>

definition ask_email :: pystr where
  "ask_email = (lit ''Thank you! Now, please provide your **email address**:'')"

definition ask_company :: pystr where
  "ask_company = (lit ''Great! Please provide your **company name** (or type 'individual' if personal):'')"

definition reprompt_email :: pystr where
  "reprompt_email = (lit ''Please provide a valid email address (e.g., name@company.com):'')"

definition ask_details :: "chatbot \<Rightarrow> pystr" where
  "ask_details s =
     (lit ''Perfect! Do you have any **additional details** you'd like to add regarding your question?'') @
     (nl @ nl) @
     (lit ''**Your original question:** \"'') @ original_user_question s @ (lit ''\"'') @
     (nl @ nl) @
     (lit ''(Type any additional information, or type 'none' if you don't have any)'')"

text \<open>The reply of the last step begins with this line whether the email was sent or not.\<close>

definition generated_header :: pystr where
  "generated_header =
     mark_sent @ (lit '' **Email Generated and Sent Successfully!**'') @ (nl @ nl)"

definition sent_text :: "chatbot \<Rightarrow> pystr" where
  "sent_text s =
     (lit ''Your request has been forwarded to our **'') @ py_str (identified_department s) @
     (lit ''** team. They will contact you at **'') @
     (case email (email_data s) of None \<Rightarrow> (lit ''None'') | Some a \<Rightarrow> a) @ (lit ''** shortly.'')"

definition not_sent_text :: "chatbot \<Rightarrow> pystr" where
  "not_sent_text s =
     mark_warning @
     (lit '' Email generated but could not be sent automatically (SMTP not configured).'') @
     (nl @ nl) @
     (lit ''The email has been prepared and will be sent to the **'') @
     py_str (identified_department s) @ (lit ''** department.'')"

text \<open>
  \<open>process_workflow_step\<close>: the state after the step, and the dictionary returned or
  the exception raised. Indexing \<open>workflow_steps\<close> beyond its end raises.
\<close>

definition process_workflow_step ::
  "env \<Rightarrow> chatbot \<Rightarrow> pystr \<Rightarrow> chatbot \<times> (exn + step_result)" where
  "process_workflow_step e s user_input =
     (if length workflow_steps \<le> current_step s then (s, Inl IndexError)
      else
        (let current_step_name = workflow_steps ! current_step s in
         if current_step_name = (lit ''name'') then
           (s\<lparr>email_data := (email_data s)\<lparr>name := Some (strip user_input)\<rparr>,
              current_step := current_step s + 1\<rparr>,
            Inr \<lparr>w_response = ask_email,
                 w_email_html = None, w_complete = False, w_email_sent = None\<rparr>)
         else if current_step_name = (lit ''email'') then
           (case match_here (email_pattern (unicode_alnum e)) (strip user_input) of
              Some email_match \<Rightarrow>
                (s\<lparr>email_data := (email_data s)\<lparr>email := Some email_match\<rparr>,
                   current_step := current_step s + 1\<rparr>,
                 Inr \<lparr>w_response = ask_company,
                      w_email_html = None, w_complete = False, w_email_sent = None\<rparr>)
            | None \<Rightarrow>
                (s, Inr \<lparr>w_response = reprompt_email,
                         w_email_html = None, w_complete = False, w_email_sent = None\<rparr>))
         else if current_step_name = (lit ''company'') then
           (s\<lparr>email_data := (email_data s)\<lparr>company := Some (strip user_input)\<rparr>,
              current_step := current_step s + 1\<rparr>,
            Inr \<lparr>w_response = ask_details s,
                 w_email_html = None, w_complete = False, w_email_sent = None\<rparr>)
         else if current_step_name = (lit ''additional_details'') then
           (let s1 = s\<lparr>email_data := (email_data s)\<lparr>additional_details :=
                       Some (if lower (unicode_lower e) user_input \<in> set [(lit ''none''), (lit ''n/a''), (lit ''no'')]
                             then [] else strip user_input)\<rparr>\<rparr>
            in case generate_intelligent_email e s1 of
                 Inl x \<Rightarrow> (s1, Inl x)
               | Inr (s2, email_html) \<Rightarrow>
                   (let email_sent = send_email_to_department e s2 email_html;
                        s3 = s2\<lparr>email_workflow_active := False\<rparr>;
                        response_msg =
                          generated_header @
                          (if email_sent then sent_text s3 else not_sent_text s3)
                    in (s3, Inr \<lparr>w_response = response_msg, w_email_html = Some email_html,
                                 w_complete = True, w_email_sent = Some email_sent\<rparr>)))
         else
           (s, Inr \<lparr>w_response = (lit ''Something went wrong. Please try again.''),
                    w_email_html = None, w_complete = False, w_email_sent = None\<rparr>)))"

section \<open>The stores\<close>

text \<open>
  \<open>save_to_chroma\<close>: the document identifier is built from the session identifier, the
  length of the turn log and the role; the result is whether \<open>add\<close> returned (it is
  called outside any \<open>try\<close>).
\<close>

definition save_to_chroma :: "env \<Rightarrow> chatbot \<Rightarrow> pystr \<Rightarrow> role \<Rightarrow> bool" where
  "save_to_chroma e s message r =
     chroma_add e (session_id s @ (lit ''_'') @ show_nat (length (chat_history s)) @ (lit ''_'') @ role_str r) message"

text \<open>\<open>search_knowledge_base\<close>: the documents found, none when the query raises.\<close>

definition search_knowledge_base :: "env \<Rightarrow> pystr \<Rightarrow> nat \<Rightarrow> pystr list" where
  "search_knowledge_base e query n_results =
     (case kb_query e query n_results of None \<Rightarrow> [] | Some docs \<Rightarrow> docs)"

section \<open>Processing a message\<close>

text \<open>The dictionary \<open>process_message\<close> returns; an absent key is \<open>None\<close>.\<close>

record response =
  r_bot_response :: pystr
  r_status :: pystr
  r_workflow_active :: bool
  r_current_step :: "nat option"
  r_session_id :: pystr
  r_email_html :: "pystr option"
  r_email_sent :: "bool option"
  r_analysis_department :: pyval
  r_analysis_confidence :: pyval
  r_analysis_reason :: pyval
  r_department :: pyval

definition user_turn :: "env \<Rightarrow> pystr \<Rightarrow> turn" where
  "user_turn e user_message = \<lparr>role = User, content = user_message, timestamp = now_user e\<rparr>"

definition assistant_turn :: "env \<Rightarrow> pystr \<Rightarrow> turn" where
  "assistant_turn e text = \<lparr>role = Assistant, content = text, timestamp = now_assistant e\<rparr>"

definition affirmative_words :: "pystr list" where
  "affirmative_words =
     [lit ''yes'', lit ''yeah'', lit ''sure'', lit ''ok'', lit ''okay'', lit ''please'', lit ''send'']"

text \<open>\<open>any(word in user_message.lower() for word in [...])\<close>\<close>

definition affirmative :: "env \<Rightarrow> pystr \<Rightarrow> bool" where
  "affirmative e user_message =
     list_ex (\<lambda>word. py_in word (lower (unicode_lower e) user_message)) affirmative_words"

definition start_prompt :: pystr where
  "start_prompt =
     (lit ''Great! Let's collect some information to send your request to our team.'') @
     (nl @ nl) @ (lit ''**Please provide your full name:**'')"

definition decline_reply :: pystr where
  "decline_reply = (lit ''No problem! Is there anything else I can help you with?'')"

definition email_offer :: "pyval \<Rightarrow> pystr" where
  "email_offer dept =
     (nl @ nl) @ mark_mail @
     (lit '' Would you like me to forward this question to our **'') @ py_str dept @
     (lit ''** team via email for a detailed response?'')"

text \<open>\<open>self.chat_history[-5:]\<close>\<close>

definition last5 :: "'a list \<Rightarrow> 'a list" where
  "last5 xs = drop (length xs - 5) xs"

text \<open>The branch of \<open>process_message\<close> taken while the workflow is active.\<close>

definition process_active :: "env \<Rightarrow> chatbot \<Rightarrow> pystr \<Rightarrow> chatbot \<times> (exn + response)" where
  "process_active e s user_message =
     (case process_workflow_step e s user_message of
        (s1, Inl x) \<Rightarrow> (s1, Inl x)
      | (s1, Inr result) \<Rightarrow>
          (s1\<lparr>chat_history := chat_history s1 @
                 [user_turn e user_message, assistant_turn e (w_response result)]\<rparr>,
           Inr \<lparr>r_bot_response = w_response result,
                r_status = (if w_complete result then (lit ''email_complete'') else (lit ''collecting_info'')),
                r_workflow_active = (\<not> w_complete result),
                r_current_step = Some (current_step s1),
                r_session_id = session_id s1,
                r_email_html = w_email_html result,
                r_email_sent = Some (case w_email_sent result of None \<Rightarrow> False | Some b \<Rightarrow> b),
                r_analysis_department = identified_department s1,
                r_analysis_confidence = department_confidence s1,
                r_analysis_reason = PStr (lit ''Email workflow in progress''),
                r_department = identified_department s1\<rparr>))"

text \<open>The branch taken while the offer to send an email waits for its answer.\<close>

definition process_confirmation :: "env \<Rightarrow> chatbot \<Rightarrow> pystr \<Rightarrow> chatbot \<times> (exn + response)" where
  "process_confirmation e s user_message =
     (if affirmative e user_message then
        (s\<lparr>email_workflow_active := True,
           email_confirmation_pending := False,
           current_step := 0,
           chat_history := chat_history s @
             [user_turn e user_message, assistant_turn e start_prompt]\<rparr>,
         Inr \<lparr>r_bot_response = start_prompt,
              r_status = (lit ''workflow_started''),
              r_workflow_active = True,
              r_current_step = Some 0,
              r_session_id = session_id s,
              r_email_html = None,
              r_email_sent = None,
              r_analysis_department = identified_department s,
              r_analysis_confidence = department_confidence s,
              r_analysis_reason = PStr (lit ''User confirmed email sending''),
              r_department = identified_department s\<rparr>)
      else
        (s\<lparr>email_confirmation_pending := False,
           chat_history := chat_history s @
             [user_turn e user_message, assistant_turn e decline_reply]\<rparr>,
         Inr \<lparr>r_bot_response = decline_reply,
              r_status = (lit ''normal''),
              r_workflow_active = False,
              r_current_step = None,
              r_session_id = session_id s,
              r_email_html = None,
              r_email_sent = None,
              r_analysis_department = identified_department s,
              r_analysis_confidence = department_confidence s,
              r_analysis_reason = PStr (lit ''User declined email sending''),
              r_department = identified_department s\<rparr>))"

text \<open>
  The last part of \<open>process_message\<close>: the knowledge search, the user turn, its save,
  the classification, the stores of its result, the assistant turn and its save. Every
  place where the source can raise returns the state reached there.
\<close>

definition process_normal :: "env \<Rightarrow> chatbot \<Rightarrow> pystr \<Rightarrow> chatbot \<times> (exn + response)" where
  "process_normal e s user_message =
     (let knowledge_results = search_knowledge_base e user_message 3;
          knowledge_context =
            (if knowledge_results \<noteq> []
             then join nl (map (\<lambda>c. (lit ''- '') @ c) knowledge_results)
             else (lit ''No relevant knowledge base entries found.''));
          s1 = s\<lparr>chat_history := chat_history s @ [user_turn e user_message]\<rparr>
      in if \<not> save_to_chroma e s1 user_message User
         then (s1, Inl (ExternalError (lit ''conversations.add'')))
         else
           (let conversation_context =
                  join nl
                    (map (\<lambda>msg. role_str (role msg) @ (lit '': '') @ content msg) (last5 (chat_history s1)));
                analysis = analyze_with_gemini e user_message conversation_context knowledge_context
            in case analysis (lit ''department'') of
                 None \<Rightarrow> (s1, Inl (KeyError (lit ''department'')))
               | Some dept \<Rightarrow>
            (let s2 = s1\<lparr>identified_department := dept\<rparr>
             in case analysis (lit ''confidence'') of
                  None \<Rightarrow> (s2, Inl (KeyError (lit ''confidence'')))
                | Some conf \<Rightarrow>
            (let s3 = s2\<lparr>department_confidence := conf,
                         original_user_question := user_message,
                         email_data := (email_data s2)
                           \<lparr>importance := Some (get analysis (lit ''importance'') (PStr (lit ''Medium'')))\<rparr>\<rparr>
             in case get analysis (lit ''user_response'') (PStr (lit ''I'll help you with that.'')) of
                  PStr bot_response \<Rightarrow>
                    (let full_response = bot_response @ email_offer dept;
                         s4 = s3\<lparr>bot_response_to_question := bot_response,
                                 email_confirmation_pending := True,
                                 chat_history := chat_history s3 @ [assistant_turn e full_response]\<rparr>
                     in if \<not> save_to_chroma e s4 full_response Assistant
                        then (s4, Inl (ExternalError (lit ''conversations.add'')))
                        else
                          (s4, Inr \<lparr>r_bot_response = full_response,
                                   r_status = (lit ''awaiting_confirmation''),
                                   r_workflow_active = False,
                                   r_current_step = None,
                                   r_session_id = session_id s4,
                                   r_email_html = None,
                                   r_email_sent = None,
                                   r_analysis_department = dept,
                                   r_analysis_confidence = conf,
                                   r_analysis_reason = get analysis (lit ''reason'') (PStr []),
                                   r_department = dept\<rparr>))
                | v \<Rightarrow> (s3, Inl TypeError)))))"

text \<open>\<open>process_message\<close>\<close>

definition process_message :: "env \<Rightarrow> chatbot \<Rightarrow> pystr \<Rightarrow> chatbot \<times> (exn + response)" where
  "process_message e s user_message =
     (if email_workflow_active s then process_active e s user_message
      else if email_confirmation_pending s then process_confirmation e s user_message
      else process_normal e s user_message)"

text \<open>\<open>reset_conversation\<close> of the controller.\<close>

definition reset_conversation :: "env \<Rightarrow> chatbot \<Rightarrow> chatbot" where
  "reset_conversation e s =
     s\<lparr>chat_history := [],
       session_id := uuid4 e,
       identified_department := PNone,
       department_confidence := PInt 0,
       email_workflow_active := False,
       email_confirmation_pending := False,
       original_user_question := [],
       bot_response_to_question := [],
       email_data := empty_email_data,
       current_step := 0\<rparr>"

section \<open>The phases of the conversation\<close>

text \<open>
  The six phases are read off the two flags and the step counter, in the order in which
  \<open>process_message\<close> and \<open>process_workflow_step\<close> test them. A state with both
  flags set, or with the workflow active beyond its last step, has no phase.
\<close>

datatype phase =
    NORMAL
  | AWAITING_EMAIL_CONFIRMATION
  | COLLECTING_NAME
  | COLLECTING_EMAIL
  | COLLECTING_COMPANY
  | COLLECTING_DETAILS

definition phase :: "chatbot \<Rightarrow> phase option" where
  "phase s =
     (if email_workflow_active s then
        (if email_confirmation_pending s then None
         else if current_step s = 0 then Some COLLECTING_NAME
         else if current_step s = 1 then Some COLLECTING_EMAIL
         else if current_step s = 2 then Some COLLECTING_COMPANY
         else if current_step s = 3 then Some COLLECTING_DETAILS
         else None)
      else if email_confirmation_pending s then Some AWAITING_EMAIL_CONFIRMATION
      else Some NORMAL)"

section \<open>The session registry and the request handlers\<close>

text \<open>
  \<open>chatbot_sessions\<close>: the dictionary from session identifiers to controllers. The
  source holds a reference to each controller and mutates it in place; here a handler
  returns the registry with the controller's new state stored under the key it was
  found at. Request bodies are JSON objects whose \<open>message\<close> and \<open>session_id\<close>
  are strings or absent.
\<close>

type_synonym registry = "pystr \<rightharpoonup> chatbot"

text \<open>
  \<open>get_chatbot\<close>: the controller registered for the identifier; when there is none, a
  new one is built (which raises without the model's API key, or when the vector store
  cannot be reached), given the identifier, and registered.
\<close>

definition get_chatbot :: "env \<Rightarrow> registry \<Rightarrow> pystr \<Rightarrow> registry \<times> (exn + chatbot)" where
  "get_chatbot e chatbot_sessions sid =
     (case chatbot_sessions sid of
        Some chatbot \<Rightarrow> (chatbot_sessions, Inr chatbot)
      | None \<Rightarrow>
          (if \<not> truthy (getenv e (lit ''GEMINI_API_KEY''))
           then (chatbot_sessions,
                 Inl (ValueError (lit ''GEMINI_API_KEY not found in environment variables'')))
           else if \<not> chroma_connect e
           then (chatbot_sessions, Inl (ExternalError (lit ''chromadb'')))
           else
             (let chatbot = (init_chatbot e)\<lparr>session_id := sid\<rparr>
              in (chatbot_sessions(sid \<mapsto> chatbot), Inr chatbot))))"

datatype chat_body =
    ChatError pystr
  | ChatFailure exn
  | ChatOk response "turn list"

text \<open>The handler of \<open>POST /api/chat\<close>: the registry, the status and the body.\<close>

definition chat ::
  "env \<Rightarrow> registry \<Rightarrow> pystr option \<Rightarrow> pystr option \<Rightarrow> registry \<times> nat \<times> chat_body" where
  "chat e chatbot_sessions message_field session_field =
     (case message_field of
        None \<Rightarrow> (chatbot_sessions, 400, ChatError (lit ''Message is required''))
      | Some raw \<Rightarrow>
          (let message = strip raw;
               sid = (if truthy session_field then the session_field else uuid4 e)
           in if message = [] then (chatbot_sessions, 400, ChatError (lit ''Message cannot be empty''))
              else
                (case get_chatbot e chatbot_sessions sid of
                   (sessions1, Inl x) \<Rightarrow> (sessions1, 500, ChatFailure x)
                 | (sessions1, Inr chatbot) \<Rightarrow>
                     (case process_message e chatbot message of
                        (chatbot1, Inl x) \<Rightarrow> (sessions1(sid \<mapsto> chatbot1), 500, ChatFailure x)
                      | (chatbot1, Inr result) \<Rightarrow>
                          (sessions1(sid \<mapsto> chatbot1), 200,
                           ChatOk result (chat_history chatbot1))))))"

datatype reset_body =
    ResetError pystr
  | ResetOk pystr

text \<open>
  The handler of \<open>POST /api/reset\<close>: the controller found under the identifier is
  reset where it is, and its new identifier is returned.
\<close>

definition reset_handler ::
  "env \<Rightarrow> registry \<Rightarrow> pystr option \<Rightarrow> registry \<times> nat \<times> reset_body" where
  "reset_handler e chatbot_sessions session_field =
     (if \<not> truthy session_field then (chatbot_sessions, 400, ResetError (lit ''session_id is required''))
      else
        (let sid = the session_field in
         case chatbot_sessions sid of
           Some chatbot \<Rightarrow>
             (let chatbot1 = reset_conversation e chatbot
              in (chatbot_sessions(sid \<mapsto> chatbot1), 200, ResetOk (session_id chatbot1)))
         | None \<Rightarrow> (chatbot_sessions, 200, ResetOk (uuid4 e))))"

datatype history_body =
    HistoryError pystr
  | HistoryOk "turn list" pyval "pystr option"

text \<open>
  The handler of \<open>POST /api/history\<close>: the status and the body, whose fields are the
  history, the identified department and the session identifier.
\<close>

definition get_history :: "registry \<Rightarrow> pystr option \<Rightarrow> nat \<times> history_body" where
  "get_history chatbot_sessions session_field =
     (if \<not> truthy session_field then (400, HistoryError (lit ''session_id is required''))
      else
        (case chatbot_sessions (the session_field) of
           Some chatbot \<Rightarrow>
             (200, HistoryOk (chat_history chatbot) (identified_department chatbot)
                     (Some (session_id chatbot)))
         | None \<Rightarrow> (200, HistoryOk [] PNone None)))"

section \<open>Successive calls\<close>

text \<open>
  A session is driven by successive calls of \<open>process_message\<close>, each with its message
  and with what the outside world answers during it. \<open>run\<close> is the state after the
  calls, \<open>completed\<close> says that every one of them returned a result.
\<close>

fun run :: "chatbot \<Rightarrow> (env \<times> pystr) list \<Rightarrow> chatbot" where
  "run s [] = s"
| "run s ((e, m) # calls) = run (fst (process_message e s m)) calls"

fun completed :: "chatbot \<Rightarrow> (env \<times> pystr) list \<Rightarrow> bool" where
  "completed s [] = True"
| "completed s ((e, m) # calls) =
     (case process_message e s m of
        (s1, Inl x) \<Rightarrow> False
      | (s1, Inr r) \<Rightarrow> completed s1 calls)"

section \<open>The email pattern in the specification's words\<close>

text \<open>
  A local part, an at sign, a domain, a dot and a top-level domain, each part non-empty,
  the first two of characters of \<open>[\w.-]\<close> and the last of characters of \<open>\w\<close>.
\<close>

definition email_shaped :: "(int \<Rightarrow> bool) \<Rightarrow> pystr \<Rightarrow> bool" where
  "email_shaped alnum t =
     (\<exists>local_part domain tld.
        t = local_part @ (lit ''@'') @ domain @ (lit ''.'') @ tld \<and>
        local_part \<noteq> [] \<and> domain \<noteq> [] \<and> tld \<noteq> [] \<and>
        list_all (is_word_dot_dash alnum) local_part \<and>
        list_all (is_word_dot_dash alnum) domain \<and>
        list_all (is_word alnum) tld)"

section \<open>The classifier's failures\<close>

text \<open>
  The three ways in which \<open>analyze_with_gemini\<close> gets no decoded object: the call of
  the model raises, its text holds no braces, or \<open>json.loads\<close> raises on what the braces
  enclose.
\<close>

definition classifier_fails :: "env \<Rightarrow> pystr \<Rightarrow> pystr \<Rightarrow> pystr \<Rightarrow> bool" where
  "classifier_fails e user_message conversation_context knowledge_context =
     (case classify e user_message conversation_context knowledge_context of
        LlmRaises msg \<Rightarrow> True
      | LlmText text \<Rightarrow>
          (case re_search_object (strip text) of
             None \<Rightarrow> True
           | Some obj \<Rightarrow> (case json_loads e obj of Inl msg \<Rightarrow> True | Inr analysis \<Rightarrow> False)))"

section \<open>Sample sessions\<close>

text \<open>
  An outside world in which every service answers, a session built in it, and the states
  the session goes through when the offer is accepted and the four slots are filled. Of
  the Unicode tables it holds what the examples below need: the Kelvin sign U+212A
  lower-cases to the letter k, and the letters of Latin-1 are alphanumeric.
\<close>

definition billing_text :: pystr where
  "billing_text = (lit ''{\"department\": \"Billing\", \"confidence\": 90}'')"

definition paragraph_number_text :: pystr where
  "paragraph_number_text = lit ''{\"paragraph1\": 5}''"

definition sample_json_loads :: "pystr \<Rightarrow> pystr + (pystr \<rightharpoonup> pyval)" where
  "sample_json_loads t =
     (if t = (lit ''{}'') then Inr Map.empty
      else if t = paragraph_number_text then Inr [lit ''paragraph1'' \<mapsto> PInt 5]
      else if t = billing_text
      then Inr [(lit ''department'') \<mapsto> PStr (lit ''Billing''), (lit ''confidence'') \<mapsto> PInt 90]
      else Inl (lit ''Expecting value''))"

definition env_ok :: env where
  "env_ok =
     \<lparr>unicode_lower = (\<lambda>s i. if s ! i = 0x212A then [107] else [s ! i]),
      unicode_alnum = (\<lambda>c. 0xC0 \<le> c \<and> c \<le> 0xFF \<and> c \<noteq> 0xD7 \<and> c \<noteq> 0xF7),
      now_user = (lit ''10:00:00''), now_assistant = (lit ''10:00:01''),
      getenv = (\<lambda>k. Some (lit ''configured'')),
      uuid4 = (lit ''uuid-b''), uuid4_init = (lit ''uuid-a''),
      chroma_connect = True,
      kb_query = (\<lambda>q n. Some []),
      chroma_add = (\<lambda>i d. True),
      classify = (\<lambda>m c k. LlmText billing_text),
      compose = (\<lambda>s. LlmRaises (lit ''unavailable'')),
      json_loads = sample_json_loads,
      resend_post = (\<lambda>r. HttpStatus 200),
      bold_to_strong = (\<lambda>t. t),
      create_department_email_html = (\<lambda>s subj body. body),
      create_user_preview_html = (\<lambda>subj body. body)\<rparr>"

definition session1 :: chatbot where
  "session1 = (init_chatbot env_ok)\<lparr>session_id := (lit ''session-1'')\<rparr>"

definition scenario :: "(env \<times> pystr) list" where
  "scenario =
     [(env_ok, (lit ''My invoice amount looks wrong'')), (env_ok, (lit ''yes'')), (env_ok, (lit ''Jane'')),
      (env_ok, (lit ''jane@acme.com'')), (env_ok, (lit ''Acme'')), (env_ok, (lit ''none''))]"

definition awaiting1 :: chatbot where
  "awaiting1 = fst (process_message env_ok session1 (lit ''My invoice amount looks wrong''))"

definition at_name :: chatbot where
  "at_name = fst (process_message env_ok awaiting1 (lit ''yes''))"

definition at_email :: chatbot where
  "at_email = fst (process_message env_ok at_name (lit ''Jane''))"

definition at_company :: chatbot where
  "at_company = fst (process_message env_ok at_email (lit ''jane@acme.com''))"

definition at_details :: chatbot where
  "at_details = fst (process_message env_ok at_company (lit ''Acme''))"

definition blank_scenario :: "(env \<times> pystr) list" where
  "blank_scenario = [(env_ok, (lit '''')), (env_ok, (lit ''a@b.co'')), (env_ok, (lit ''   '')), (env_ok, (lit ''none''))]"

text \<open>The same world without any environment variable, and one whose classifier answers
  with an empty JSON object.\<close>

definition env_nokey :: env where
  "env_nokey = env_ok\<lparr>getenv := (\<lambda>k. None)\<rparr>"

definition env_empty_object :: env where
  "env_empty_object = env_ok\<lparr>classify := (\<lambda>m c k. LlmText (lit ''{}''))\<rparr>"

text \<open>A registry with one session, and a mail service that refuses the API key.\<close>

definition registry1 :: registry where
  "registry1 = [(lit ''session-1'') \<mapsto> at_email]"

definition registry_details :: registry where
  "registry_details = [lit ''session-1'' \<mapsto> at_details]"

definition env_unauthorized :: env where
  "env_unauthorized = env_ok\<lparr>resend_post := (\<lambda>r. HttpStatus 401)\<rparr>"

text \<open>A world whose language model is down.\<close>

definition env_llm_down :: env where
  "env_llm_down = env_ok\<lparr>classify := (\<lambda>m c k. LlmRaises (lit ''503 unavailable''))\<rparr>"

text \<open>
  A world whose conversation store refuses every save, and one whose composer answers
  with an object whose first paragraph is a number.
\<close>

definition env_store_down :: env where
  "env_store_down = env_ok\<lparr>chroma_add := (\<lambda>i d. False)\<rparr>"

definition env_bad_composer :: env where
  "env_bad_composer = env_ok\<lparr>compose := (\<lambda>s. LlmText paragraph_number_text)\<rparr>"




text \<open>
  Messages with characters beyond ASCII: "o" and the Kelvin sign; an address with the
  letter e acute, followed by a no-break space; a name between a no-break space and an
  ideographic space; an ideographic space alone.
\<close>

definition o_kelvin :: pystr where
  "o_kelvin = [111, 0x212A]"

definition jose_address :: pystr where
  "jose_address = lit ''jos'' @ [0xE9] @ lit ''@b.co''"

definition jane_padded :: pystr where
  "jane_padded = [0xA0] @ lit ''Jane'' @ [0x3000]"

definition ideographic_space :: pystr where
  "ideographic_space = [0x3000]"

section \<open>Facts about strings and patterns\<close>

text \<open>Literals are equal exactly when their texts are.\<close>

lemma lit_inj [simp]: "lit a = lit b \<longleftrightarrow> a = b"
proof -
  have "inj (of_char :: char \<Rightarrow> int)" by (rule inj_of_char)
  then have "inj (map (of_char :: char \<Rightarrow> int))" by simp
  then show ?thesis unfolding lit_def by (rule inj_eq)
qed

lemma lit_Nil [simp]: "lit [] = []" "lit a = [] \<longleftrightarrow> a = []" "[] = lit a \<longleftrightarrow> a = []"
  by (auto simp: lit_def)

lemma nl_eq [simp]: "nl = [10]"
  by (simp add: nl_def)

lemma py_in_iff: "py_in w s \<longleftrightarrow> (\<exists>pre post. s = pre @ w @ post)"
proof (induction s)
  case Nil
  then show ?case by auto
next
  case (Cons c cs)
  show ?case
  proof
    assume "py_in w (c # cs)"
    then consider "take (length w) (c # cs) = w" | "py_in w cs" by auto
    then show "\<exists>pre post. c # cs = pre @ w @ post"
    proof cases
      case 1
      then have "c # cs = [] @ w @ drop (length w) (c # cs)"
        by (metis append_Nil append_take_drop_id)
      then show ?thesis by blast
    next
      case 2
      then obtain pre post where "cs = pre @ w @ post" using Cons.IH by blast
      then have "c # cs = (c # pre) @ w @ post" by simp
      then show ?thesis by blast
    qed
  next
    assume "\<exists>pre post. c # cs = pre @ w @ post"
    then obtain pre post where eq: "c # cs = pre @ w @ post" by blast
    show "py_in w (c # cs)"
    proof (cases pre)
      case Nil
      then have "take (length w) (c # cs) = w" using eq by simp
      then show ?thesis by simp
    next
      case (Cons p ps)
      then have "cs = ps @ w @ post" using eq by simp
      then have "py_in w cs" using Cons.IH by blast
      then show ?thesis by simp
    qed
  qed
qed

lemma match_here_result:
  "match_here p s = Some m \<Longrightarrow> s = m \<or> s = m @ [10]"
proof (induction p s arbitrary: m rule: match_here.induct)
  case (1 s)
  then show ?case by (auto split: if_splits)
next
  case (2 c r)
  then show ?case by simp
next
  case (3 c r x xs)
  then show ?case by (auto split: if_splits)
next
  case (4 P r)
  then show ?case by simp
next
  case (5 P r x xs)
  then show ?case by (auto split: if_splits option.splits)
qed

lemma match_here_plus:
  "(match_here (Plus P # r) s \<noteq> None) \<longleftrightarrow>
   (\<exists>a b. s = a @ b \<and> a \<noteq> [] \<and> list_all P a \<and> match_here r b \<noteq> None)"
proof (induction s)
  case Nil
  then show ?case by simp
next
  case (Cons x xs)
  show ?case
  proof
    assume h: "match_here (Plus P # r) (x # xs) \<noteq> None"
    then have px: "P x" by (auto split: if_splits)
    from h px consider "match_here (Plus P # r) xs \<noteq> None" | "match_here r xs \<noteq> None"
      by (auto split: option.splits)
    then show "\<exists>a b. x # xs = a @ b \<and> a \<noteq> [] \<and> list_all P a \<and> match_here r b \<noteq> None"
    proof cases
      case 1
      then obtain a b where "xs = a @ b" "a \<noteq> []" "list_all P a" "match_here r b \<noteq> None"
        using Cons.IH by blast
      then have "x # xs = (x # a) @ b \<and> x # a \<noteq> [] \<and> list_all P (x # a) \<and> match_here r b \<noteq> None"
        using px by simp
      then show ?thesis by blast
    next
      case 2
      then have "x # xs = [x] @ xs \<and> [x] \<noteq> [] \<and> list_all P [x] \<and> match_here r xs \<noteq> None"
        using px by simp
      then show ?thesis by blast
    qed
  next
    assume "\<exists>a b. x # xs = a @ b \<and> a \<noteq> [] \<and> list_all P a \<and> match_here r b \<noteq> None"
    then obtain a b where ab: "x # xs = a @ b" "a \<noteq> []" "list_all P a" "match_here r b \<noteq> None"
      by blast
    then obtain a' where a: "a = x # a'" by (cases a) auto
    then have px: "P x" and xs: "xs = a' @ b" and pa: "list_all P a'" using ab by auto
    show "match_here (Plus P # r) (x # xs) \<noteq> None"
    proof (cases "a' = []")
      case True
      then have "match_here r xs \<noteq> None" using xs ab by simp
      then show ?thesis using px by (auto split: option.splits)
    next
      case False
      then have "match_here (Plus P # r) xs \<noteq> None" using Cons.IH xs pa ab by blast
      then show ?thesis using px by (auto split: option.splits)
    qed
  qed
qed

lemma match_here_lit:
  "(match_here (Lit c # r) s \<noteq> None) \<longleftrightarrow> (\<exists>b. s = c # b \<and> match_here r b \<noteq> None)"
  by (cases s) auto

lemma match_here_end_plus:
  "(match_here [Plus P] s \<noteq> None) \<longleftrightarrow>
   (\<exists>a. a \<noteq> [] \<and> list_all P a \<and> (s = a \<or> s = a @ [10]))"
  unfolding match_here_plus by (auto split: if_splits)

lemma strip_last: "strip s = [] \<or> \<not> is_space (last (strip s))"
proof (cases "strip s = []")
  case True
  then show ?thesis by simp
next
  case False
  define t where "t = rev (dropWhile is_space s)"
  have ne: "dropWhile is_space t \<noteq> []" using False by (simp add: strip_def t_def)
  have "last (strip s) = hd (dropWhile is_space t)"
    using ne by (simp add: strip_def t_def last_rev)
  moreover have "\<not> is_space (hd (dropWhile is_space t))" using ne by (rule hd_dropWhile)
  ultimately show ?thesis by simp
qed

lemma is_space_newline: "is_space 10"
  by (simp add: is_space_def)

lemma strip_no_final_newline: "strip s \<noteq> m @ [10]"
proof
  assume h: "strip s = m @ [10]"
  then have "last (strip s) = 10" by simp
  then show False using strip_last [of s] h is_space_newline by auto
qed

lemma lit_at_dot: "lit ''@'' = [64]" "lit ''.'' = [46]"
  by (simp_all add: lit_def)

lemma email_match_shape:
  assumes "\<And>m. s \<noteq> m @ [10]"
  shows "(match_here (email_pattern alnum) s \<noteq> None) \<longleftrightarrow> email_shaped alnum s"
proof
  assume "match_here (email_pattern alnum) s \<noteq> None"
  then obtain a b where 1: "s = a @ b" "a \<noteq> []" "list_all (is_word_dot_dash alnum) a"
      "match_here [Lit 64, Plus (is_word_dot_dash alnum), Lit 46, Plus (is_word alnum)] b \<noteq> None"
    unfolding email_pattern_def match_here_plus by blast
  then obtain b1 where 2: "b = 64 # b1"
      "match_here [Plus (is_word_dot_dash alnum), Lit 46, Plus (is_word alnum)] b1 \<noteq> None"
    unfolding match_here_lit by blast
  then obtain d b2 where 3: "b1 = d @ b2" "d \<noteq> []" "list_all (is_word_dot_dash alnum) d"
      "match_here [Lit 46, Plus (is_word alnum)] b2 \<noteq> None"
    unfolding match_here_plus by blast
  then obtain b3 where 4: "b2 = 46 # b3" "match_here [Plus (is_word alnum)] b3 \<noteq> None"
    unfolding match_here_lit by blast
  then obtain t where 5: "t \<noteq> []" "list_all (is_word alnum) t" "b3 = t \<or> b3 = t @ [10]"
    unfolding match_here_end_plus by blast
  have "b3 \<noteq> t @ [10]"
  proof
    assume "b3 = t @ [10]"
    then have "s = (a @ [64] @ d @ [46] @ t) @ [10]" using 1 2 3 4 by simp
    then show False using assms by blast
  qed
  then have "b3 = t" using 5 by blast
  then have "s = a @ lit ''@'' @ d @ lit ''.'' @ t" using 1 2 3 4 by (simp add: lit_at_dot)
  then show "email_shaped alnum s" unfolding email_shaped_def using 1 3 5 by blast
next
  assume "email_shaped alnum s"
  then obtain a d t where s: "s = a @ [64] @ d @ [46] @ t" and ne: "a \<noteq> []" "d \<noteq> []" "t \<noteq> []"
    and cl: "list_all (is_word_dot_dash alnum) a" "list_all (is_word_dot_dash alnum) d"
      "list_all (is_word alnum) t"
    unfolding email_shaped_def lit_at_dot by blast
  have 5: "match_here [Plus (is_word alnum)] t \<noteq> None"
    unfolding match_here_end_plus using ne cl by blast
  then have 4: "match_here [Lit 46, Plus (is_word alnum)] ([46] @ t) \<noteq> None"
    unfolding match_here_lit by simp
  have 3: "match_here [Plus (is_word_dot_dash alnum), Lit 46, Plus (is_word alnum)] (d @ [46] @ t) \<noteq> None"
    unfolding match_here_plus using 4 ne cl by blast
  then have 2: "match_here [Lit 64, Plus (is_word_dot_dash alnum), Lit 46, Plus (is_word alnum)]
      ([64] @ d @ [46] @ t) \<noteq> None"
    unfolding match_here_lit by simp
  show "match_here (email_pattern alnum) s \<noteq> None"
    unfolding email_pattern_def match_here_plus s using 2 ne cl by blast
qed

lemma email_match_strip:
  "match_here (email_pattern alnum) (strip x) =
     (if email_shaped alnum (strip x) then Some (strip x) else None)"
proof (cases "match_here (email_pattern alnum) (strip x)")
  case None
  then show ?thesis using email_match_shape [of "strip x" alnum] strip_no_final_newline by auto
next
  case (Some m)
  then have "strip x = m" using match_here_result strip_no_final_newline by blast
  moreover have "email_shaped alnum (strip x)"
    using Some email_match_shape [of "strip x" alnum] strip_no_final_newline by auto
  ultimately show ?thesis using Some by simp
qed

lemma shaped_by_match:
  "match_here (email_pattern alnum) (strip x) = Some y \<Longrightarrow> email_shaped alnum (strip x)"
  by (simp add: email_match_strip split: if_splits)

lemma unshaped_by_match:
  "match_here (email_pattern alnum) (strip x) = None \<Longrightarrow> \<not> email_shaped alnum (strip x)"
  by (simp add: email_match_strip split: if_splits)

text \<open>
  No white space is a word character as long as the Unicode table does not call a
  white-space character alphanumeric; then a string of the email shape holds none.
\<close>

lemma word_not_space:
  "(\<And>c. alnum c \<Longrightarrow> \<not> is_space c) \<Longrightarrow> is_word_dot_dash alnum c \<Longrightarrow> \<not> is_space c"
  by (auto simp: is_word_dot_dash_def is_word_def is_space_def split: if_splits)

lemma email_shaped_no_space:
  assumes tab: "\<And>c. alnum c \<Longrightarrow> \<not> is_space c" and sh: "email_shaped alnum t"
  shows "\<not> list_ex is_space t"
proof -
  obtain l d tld where t: "t = l @ [64] @ d @ [46] @ tld"
    and cl: "list_all (is_word_dot_dash alnum) l" "list_all (is_word_dot_dash alnum) d"
      "list_all (is_word alnum) tld"
    using sh unfolding email_shaped_def lit_at_dot by blast
  have "list_all (is_word_dot_dash alnum) tld"
    using cl(3) by (simp add: list_all_iff is_word_dot_dash_def)
  then have "list_all (\<lambda>c. \<not> is_space c) (l @ d @ tld)"
    using cl word_not_space [OF tab] by (auto simp: list_all_iff)
  moreover have "\<not> is_space 64" "\<not> is_space 46"
    by (simp_all add: is_space_def)
  ultimately show "\<not> list_ex is_space t"
    unfolding t by (auto simp: list_all_iff list_ex_iff)
qed

text \<open>On a string of ASCII characters \<open>lower\<close> does not consult the Unicode table.\<close>

lemma concat_singletons: "concat (map (\<lambda>i. [f i]) xs) = map f xs"
  by (induction xs) auto

lemma lower_ascii:
  assumes "list_all (\<lambda>c. c < 128) s"
  shows "lower ulower s = map ascii_lower s"
proof -
  have "\<And>i. i \<in> set [0..<length s] \<Longrightarrow>
          (if s ! i < 128 then [ascii_lower (s ! i)] else ulower s i) = [ascii_lower (s ! i)]"
    using assms by (simp add: list_all_length)
  then have e: "map (\<lambda>i. if s ! i < 128 then [ascii_lower (s ! i)] else ulower s i) [0..<length s] =
        map (\<lambda>i. [ascii_lower (s ! i)]) [0..<length s]"
    by (rule map_cong [OF refl])
  have "map ascii_lower (map ((!) s) [0..<length s]) = map ascii_lower s"
    by (simp only: map_nth)
  then have "map (\<lambda>i. ascii_lower (s ! i)) [0..<length s] = map ascii_lower s"
    by (simp add: comp_def)
  then show ?thesis
    unfolding lower_def e concat_singletons .
qed

section \<open>Facts about the phases and the steps\<close>

lemma phase_normal: "phase s = Some NORMAL \<longleftrightarrow> \<not> email_workflow_active s \<and> \<not> email_confirmation_pending s"
  by (simp add: phase_def)

lemma phase_awaiting:
  "phase s = Some AWAITING_EMAIL_CONFIRMATION \<longleftrightarrow>
   \<not> email_workflow_active s \<and> email_confirmation_pending s"
  by (simp add: phase_def)

lemma phase_name:
  "phase s = Some COLLECTING_NAME \<longleftrightarrow>
   email_workflow_active s \<and> \<not> email_confirmation_pending s \<and> current_step s = 0"
  by (simp add: phase_def)

lemma phase_email:
  "phase s = Some COLLECTING_EMAIL \<longleftrightarrow>
   email_workflow_active s \<and> \<not> email_confirmation_pending s \<and> current_step s = 1"
  by (simp add: phase_def)

lemma phase_company:
  "phase s = Some COLLECTING_COMPANY \<longleftrightarrow>
   email_workflow_active s \<and> \<not> email_confirmation_pending s \<and> current_step s = 2"
  by (simp add: phase_def)

lemma phase_details:
  "phase s = Some COLLECTING_DETAILS \<longleftrightarrow>
   email_workflow_active s \<and> \<not> email_confirmation_pending s \<and> current_step s = 3"
  by (simp add: phase_def)

lemma affirmative_iff:
  "affirmative e m \<longleftrightarrow> (\<exists>w \<in> set affirmative_words. \<exists>pre post. lower (unicode_lower e) m = pre @ w @ post)"
  by (simp add: affirmative_def list_ex_iff py_in_iff)

lemma sample_phases:
  "phase session1 = Some NORMAL"
  "phase awaiting1 = Some AWAITING_EMAIL_CONFIRMATION"
  "phase at_name = Some COLLECTING_NAME"
  "phase at_email = Some COLLECTING_EMAIL"
  "phase at_company = Some COLLECTING_COMPANY"
  "phase at_details = Some COLLECTING_DETAILS"
  by code_simp+

lemma email_step_state:
  assumes "phase s = Some COLLECTING_EMAIL"
  shows "fst (process_message e s m) =
           (if email_shaped (unicode_alnum e) (strip m)
            then s\<lparr>email_data := (email_data s)\<lparr>email := Some (strip m)\<rparr>,
                   current_step := 2,
                   chat_history := chat_history s @ [user_turn e m, assistant_turn e ask_company]\<rparr>
            else s\<lparr>chat_history := chat_history s @ [user_turn e m, assistant_turn e reprompt_email]\<rparr>)"
  using assms
  by (simp add: phase_email process_message_def process_active_def process_workflow_step_def
      workflow_steps_def email_match_strip)

lemma email_step_reply:
  assumes "phase s = Some COLLECTING_EMAIL"
  shows "\<exists>r. snd (process_message e s m) = Inr r \<and>
             r_bot_response r = (if email_shaped (unicode_alnum e) (strip m) then ask_company else reprompt_email) \<and>
             r_workflow_active r"
  using assms
  by (simp add: phase_email process_message_def process_active_def process_workflow_step_def
      workflow_steps_def email_match_strip)

lemma name_step_state:
  assumes "phase s = Some COLLECTING_NAME"
  shows "fst (process_message e s m) =
           s\<lparr>email_data := (email_data s)\<lparr>name := Some (strip m)\<rparr>,
             current_step := 1,
             chat_history := chat_history s @ [user_turn e m, assistant_turn e ask_email]\<rparr>"
  using assms
  by (simp add: phase_name process_message_def process_active_def process_workflow_step_def
      workflow_steps_def)

lemma name_step_reply:
  assumes "phase s = Some COLLECTING_NAME"
  shows "\<exists>r. snd (process_message e s m) = Inr r \<and> r_bot_response r = ask_email \<and>
             r_workflow_active r"
  using assms
  by (simp add: phase_name process_message_def process_active_def process_workflow_step_def
      workflow_steps_def)

lemma company_step_state:
  assumes "phase s = Some COLLECTING_COMPANY"
  shows "fst (process_message e s m) =
           s\<lparr>email_data := (email_data s)\<lparr>company := Some (strip m)\<rparr>,
             current_step := 3,
             chat_history := chat_history s @ [user_turn e m, assistant_turn e (ask_details s)]\<rparr>"
  using assms
  by (simp add: phase_company process_message_def process_active_def process_workflow_step_def
      workflow_steps_def)

lemma company_step_reply:
  assumes "phase s = Some COLLECTING_COMPANY"
  shows "\<exists>r. snd (process_message e s m) = Inr r \<and> r_bot_response r = ask_details s \<and>
             r_workflow_active r"
  using assms
  by (simp add: phase_company process_message_def process_active_def process_workflow_step_def
      workflow_steps_def)

lemma email_run:
  "phase s = Some COLLECTING_EMAIL \<Longrightarrow>
   list_all (\<lambda>(e, m). \<not> email_shaped (unicode_alnum e) (strip m)) calls \<Longrightarrow>
   phase (run s calls) = Some COLLECTING_EMAIL \<and> email_data (run s calls) = email_data s"
proof (induction calls arbitrary: s)
  case Nil
  then show ?case by simp
next
  case (Cons c calls)
  obtain e m where c: "c = (e, m)" by (cases c)
  have bad: "\<not> email_shaped (unicode_alnum e) (strip m)" using Cons.prems(2) c by simp
  define s1 where "s1 = fst (process_message e s m)"
  have s1: "s1 = s\<lparr>chat_history := chat_history s @ [user_turn e m, assistant_turn e reprompt_email]\<rparr>"
    unfolding s1_def using email_step_state [OF Cons.prems(1), of e m] bad by simp
  have "phase s1 = Some COLLECTING_EMAIL" using Cons.prems(1) by (simp add: s1 phase_email)
  moreover have "list_all (\<lambda>(e, m). \<not> email_shaped (unicode_alnum e) (strip m)) calls" using Cons.prems(2) by simp
  ultimately have "phase (run s1 calls) = Some COLLECTING_EMAIL \<and> email_data (run s1 calls) = email_data s1"
    by (rule Cons.IH)
  moreover have "run s (c # calls) = run s1 calls" by (simp add: c s1_def)
  moreover have "email_data s1 = email_data s" by (simp add: s1)
  ultimately show ?case by simp
qed

lemma generate_shape:
  assumes "generate_intelligent_email e s = Inr (s2, html)"
  shows "\<exists>d sj. s2 = s\<lparr>email_data := (email_data s)
            \<lparr>department_email := Some d, user_preview := Some html, subject := Some sj\<rparr>\<rparr>"
  using assms
  by (auto simp: generate_intelligent_email_def Let_def split: sum.splits)

lemma fallback_parts_lines:
  "\<exists>ls. paragraph_lines (fallback_parts s) (lit ''paragraph1'') = Inr ls \<and> list_all is_str ls"
  "\<exists>ls. paragraph_lines (fallback_parts s) (lit ''paragraph2'') = Inr ls \<and> list_all is_str ls"
  "\<exists>ls. paragraph_lines (fallback_parts s) (lit ''paragraph3'') = Inr ls \<and> list_all is_str ls"
  by (simp_all add: paragraph_lines_def fallback_parts_def get_def)

lemma signature_fallback: "list_all is_str (signature_lines e s (fallback_parts s))"
  by (simp add: signature_lines_def fallback_parts_def)

lemma generate_fallback:
  assumes "compose_parts e s = fallback_parts s"
  shows "\<exists>s2 html. generate_intelligent_email e s = Inr (s2, html)"
proof -
  obtain l1 l2 l3 where l:
    "paragraph_lines (fallback_parts s) (lit ''paragraph1'') = Inr l1" "list_all is_str l1"
    "paragraph_lines (fallback_parts s) (lit ''paragraph2'') = Inr l2" "list_all is_str l2"
    "paragraph_lines (fallback_parts s) (lit ''paragraph3'') = Inr l3" "list_all is_str l3"
    using fallback_parts_lines by blast
  have g: "is_str (get (fallback_parts s) (lit ''greeting'') (PStr (lit ''Dear Team,'')))"
    by (simp add: fallback_parts_def get_def)
  have c: "is_str (get (fallback_parts s) (lit ''closing'') (PStr (lit ''Best regards,'')))"
    by (simp add: fallback_parts_def get_def)
  show ?thesis
    using l g c signature_fallback [of e s]
    by (simp add: generate_intelligent_email_def assms Let_def join_values_def)
qed

lemma compose_fails:
  "compose e s = LlmRaises msg \<Longrightarrow> compose_parts e s = fallback_parts s"
  "compose e s = LlmText t \<Longrightarrow> re_search_object (strip t) = None \<Longrightarrow>
     compose_parts e s = fallback_parts s"
  "compose e s = LlmText t \<Longrightarrow> re_search_object (strip t) = Some obj \<Longrightarrow>
     json_loads e obj = Inl err \<Longrightarrow> compose_parts e s = fallback_parts s"
  by (simp_all add: compose_parts_def)

lemma details_step:
  assumes ph: "phase s = Some COLLECTING_DETAILS"
    and gen: "generate_intelligent_email e
                (s\<lparr>email_data := (email_data s)\<lparr>additional_details :=
                     Some (if lower (unicode_lower e) m \<in> set [(lit ''none''), (lit ''n/a''), (lit ''no'')] then [] else strip m)\<rparr>\<rparr>)
              = Inr (s2, html)"
  shows "process_workflow_step e s m =
           (s2\<lparr>email_workflow_active := False\<rparr>,
            Inr \<lparr>w_response = generated_header @
                   (if send_email_to_department e s2 html then sent_text s2 else not_sent_text s2),
                 w_email_html = Some html, w_complete = True,
                 w_email_sent = Some (send_email_to_department e s2 html)\<rparr>)"
  using ph gen
  by (simp add: phase_details process_workflow_step_def workflow_steps_def Let_def
      sent_text_def not_sent_text_def)

lemma details_raise:
  assumes ph: "phase s = Some COLLECTING_DETAILS"
    and gen: "generate_intelligent_email e
                (s\<lparr>email_data := (email_data s)\<lparr>additional_details :=
                     Some (if lower (unicode_lower e) m \<in> set [(lit ''none''), (lit ''n/a''), (lit ''no'')] then [] else strip m)\<rparr>\<rparr>)
              = Inl x"
  shows "process_workflow_step e s m =
           (s\<lparr>email_data := (email_data s)\<lparr>additional_details :=
                     Some (if lower (unicode_lower e) m \<in> set [(lit ''none''), (lit ''n/a''), (lit ''no'')] then [] else strip m)\<rparr>\<rparr>, Inl x)"
  using ph gen
  by (simp add: phase_details process_workflow_step_def workflow_steps_def Let_def)

lemma send_false_iff:
  "send_email_to_department e s html \<longleftrightarrow> send_attempt e s html = Inr ()"
  by (simp add: send_email_to_department_def split: sum.splits)

lemma send_no_key:
  "\<not> truthy (getenv e (lit ''RESEND_API_KEY'')) \<Longrightarrow> \<not> send_email_to_department e s html"
  by (simp add: send_email_to_department_def send_attempt_def)

lemma send_transport:
  "(\<And>rq. \<exists>msg. resend_post e rq = TransportError msg) \<Longrightarrow> \<not> send_email_to_department e s html"
  unfolding send_email_to_department_def send_attempt_def
  by (auto split: sum.splits pyval.splits option.splits http_outcome.splits prod.splits if_splits)
     (metis http_outcome.distinct(1))+

lemma details_state:
  assumes ph: "phase s = Some COLLECTING_DETAILS"
    and gen: "generate_intelligent_email e
                (s\<lparr>email_data := (email_data s)\<lparr>additional_details :=
                     Some (if lower (unicode_lower e) m \<in> set [(lit ''none''), (lit ''n/a''), (lit ''no'')] then [] else strip m)\<rparr>\<rparr>)
              = Inr (s2, html)"
  shows "additional_details (email_data s2) =
           Some (if lower (unicode_lower e) m \<in> set [(lit ''none''), (lit ''n/a''), (lit ''no'')] then [] else strip m) \<and>
         \<not> email_confirmation_pending s2 \<and> chat_history s2 = chat_history s"
proof -
  obtain d sj where "s2 = (s\<lparr>email_data := (email_data s)\<lparr>additional_details :=
                     Some (if lower (unicode_lower e) m \<in> set [(lit ''none''), (lit ''n/a''), (lit ''no'')] then [] else strip m)\<rparr>\<rparr>)
      \<lparr>email_data := (email_data (s\<lparr>email_data := (email_data s)\<lparr>additional_details :=
                     Some (if lower (unicode_lower e) m \<in> set [(lit ''none''), (lit ''n/a''), (lit ''no'')] then [] else strip m)\<rparr>\<rparr>))
            \<lparr>department_email := Some d, user_preview := Some html, subject := Some sj\<rparr>\<rparr>"
    using generate_shape [OF gen] by blast
  then show ?thesis using ph by (simp add: phase_details)
qed

lemma send_http_error:
  "(\<And>rq. \<exists>code. resend_post e rq = HttpStatus code \<and> 400 \<le> code \<and> code < 600) \<Longrightarrow>
   \<not> send_email_to_department e s html"
  unfolding send_email_to_department_def send_attempt_def
  by (auto split: sum.splits pyval.splits option.splits http_outcome.splits prod.splits if_splits)
     (metis http_outcome.inject(2) not_le)+

lemma strip_blank: "list_all is_space m \<Longrightarrow> strip m = []"
proof -
  assume "list_all is_space m"
  then have d: "dropWhile is_space m = []" by (simp add: list_all_iff)
  show "strip m = []" unfolding strip_def d by simp
qed

text \<open>The examples of the confirmation test; the last one holds through "ok" in "broken".\<close>

lemma affirmative_examples:
  "affirmative e (lit ''YES'')" "affirmative e (lit ''Sure!'')" "affirmative e (lit ''ok'')"
  "\<not> affirmative e (lit ''no thanks'')" "affirmative e (lit ''It is broken'')"
  by code_simp+

text \<open>Every state reached from a new controller has a phase.\<close>

lemma phase_history: "phase (s\<lparr>chat_history := h\<rparr>) = phase s"
  by (simp add: phase_def)

lemma normal_keeps_active:
  "email_workflow_active (fst (process_normal e s m)) = email_workflow_active s"
  unfolding process_normal_def Let_def
  by (simp split: option.splits pyval.splits)

lemma phase_inactive: "\<not> email_workflow_active s \<Longrightarrow> phase s \<noteq> None"
  by (simp add: phase_def)

lemma phase_defined_step:
  assumes "phase s \<noteq> None"
  shows "phase (fst (process_message e s m)) \<noteq> None"
proof -
  obtain p where p: "phase s = Some p" using assms by blast
  show ?thesis
  proof (cases p)
    case NORMAL
    then have f: "\<not> email_workflow_active s" "\<not> email_confirmation_pending s"
      using p by (simp_all add: phase_normal)
    then have "process_message e s m = process_normal e s m" by (simp add: process_message_def)
    then show ?thesis using f normal_keeps_active [of e s m] phase_inactive by simp
  next
    case AWAITING_EMAIL_CONFIRMATION
    then have f: "\<not> email_workflow_active s" "email_confirmation_pending s"
      using p by (simp_all add: phase_awaiting)
    then show ?thesis by (simp add: process_message_def process_confirmation_def phase_def)
  next
    case COLLECTING_NAME
    then have h: "phase s = Some COLLECTING_NAME" using p by simp
    then have "email_workflow_active s" "\<not> email_confirmation_pending s" by (simp_all add: phase_name)
    then show ?thesis by (simp add: name_step_state [OF h] phase_def)
  next
    case COLLECTING_EMAIL
    then have h: "phase s = Some COLLECTING_EMAIL" using p by simp
    then have "email_workflow_active s" "\<not> email_confirmation_pending s" "current_step s = 1"
      by (simp_all add: phase_email)
    then show ?thesis by (simp add: email_step_state [OF h] phase_def)
  next
    case COLLECTING_COMPANY
    then have h: "phase s = Some COLLECTING_COMPANY" using p by simp
    then have "email_workflow_active s" "\<not> email_confirmation_pending s" by (simp_all add: phase_company)
    then show ?thesis by (simp add: company_step_state [OF h] phase_def)
  next
    case COLLECTING_DETAILS
    then have h: "phase s = Some COLLECTING_DETAILS" using p by simp
    then have f: "email_workflow_active s" "\<not> email_confirmation_pending s" "current_step s = 3"
      by (simp_all add: phase_details)
    let ?s1 = "s\<lparr>email_data := (email_data s)\<lparr>additional_details :=
        Some (if lower (unicode_lower e) m \<in> set [(lit ''none''), (lit ''n/a''), (lit ''no'')] then [] else strip m)\<rparr>\<rparr>"
    show ?thesis
    proof (cases "generate_intelligent_email e ?s1")
      case (Inl x)
      then show ?thesis
        using f by (simp add: process_message_def process_active_def details_raise [OF h Inl] phase_def)
    next
      case (Inr r)
      obtain s2 html where r: "r = (s2, html)" by (cases r)
      then have g: "generate_intelligent_email e ?s1 = Inr (s2, html)" using Inr by simp
      have "\<not> email_workflow_active (fst (process_message e s m))"
        using f by (simp add: process_message_def process_active_def details_step [OF h g])
      then show ?thesis by (rule phase_inactive)
    qed
  qed
qed

lemma phase_defined_run: "phase s \<noteq> None \<Longrightarrow> phase (run s calls) \<noteq> None"
proof (induction calls arbitrary: s)
  case Nil
  then show ?case by simp
next
  case (Cons c calls)
  obtain e m where c: "c = (e, m)" by (cases c)
  have "phase (fst (process_message e s m)) \<noteq> None" using Cons.prems by (rule phase_defined_step)
  then have "phase (run (fst (process_message e s m)) calls) \<noteq> None" by (rule Cons.IH)
  then show ?case by (simp add: c)
qed

lemma phase_of_new_controller: "phase (init_chatbot e) = Some NORMAL"
  by (simp add: init_chatbot_def phase_def)

section \<open>Facts about the turn log\<close>

lemma workflow_step_history:
  "process_workflow_step e s m = (s1, out) \<Longrightarrow> chat_history s1 = chat_history s"
  unfolding process_workflow_step_def Let_def
  by (auto split: if_splits option.splits sum.splits prod.splits dest!: generate_shape)

lemma active_appends:
  assumes "process_active e s m = (s', Inr r)"
  shows "chat_history s' = chat_history s @ [user_turn e m, assistant_turn e (r_bot_response r)]"
proof -
  obtain s1 out where w: "process_workflow_step e s m = (s1, out)" by (cases "process_workflow_step e s m")
  then obtain result where out: "out = Inr result"
    using assms by (cases out) (simp_all add: process_active_def)
  have h: "chat_history s1 = chat_history s" using w by (rule workflow_step_history)
  show ?thesis using assms w out h by (auto simp: process_active_def)
qed

lemma confirmation_appends:
  assumes "process_confirmation e s m = (s', Inr r)"
  shows "chat_history s' = chat_history s @ [user_turn e m, assistant_turn e (r_bot_response r)]"
  using assms by (auto simp: process_confirmation_def split: if_splits)

lemma normal_appends:
  assumes "process_normal e s m = (s', Inr r)"
  shows "chat_history s' = chat_history s @ [user_turn e m, assistant_turn e (r_bot_response r)]"
  using assms unfolding process_normal_def Let_def
  by (auto split: if_splits option.splits pyval.splits)

lemma process_message_appends:
  assumes "process_message e s m = (s', Inr r)"
  shows "chat_history s' = chat_history s @ [user_turn e m, assistant_turn e (r_bot_response r)]"
  using assms active_appends confirmation_appends normal_appends
  by (auto simp: process_message_def split: if_splits)

lemma run_appends:
  "completed s calls \<Longrightarrow>
   \<exists>ts. chat_history (run s calls) = chat_history s @ ts \<and> length ts = 2 * length calls \<and>
        map role ts = concat (replicate (length calls) [User, Assistant])"
proof (induction calls arbitrary: s)
  case Nil
  then show ?case by simp
next
  case (Cons c calls)
  obtain e m where c: "c = (e, m)" by (cases c)
  obtain s1 out where pm: "process_message e s m = (s1, out)" by (cases "process_message e s m")
  then obtain r where out: "out = Inr r" and rest: "completed s1 calls"
    using Cons.prems c by (cases out) auto
  have h1: "chat_history s1 = chat_history s @ [user_turn e m, assistant_turn e (r_bot_response r)]"
    using pm out by (simp add: process_message_appends)
  obtain ts where ts: "chat_history (run s1 calls) = chat_history s1 @ ts"
      "length ts = 2 * length calls"
      "map role ts = concat (replicate (length calls) [User, Assistant])"
    using Cons.IH [OF rest] by blast
  let ?us = "[user_turn e m, assistant_turn e (r_bot_response r)] @ ts"
  have "chat_history (run s (c # calls)) = chat_history s @ ?us"
    using ts(1) h1 by (simp add: c pm)
  moreover have "length ?us = 2 * length (c # calls)" using ts(2) by simp
  moreover have "map role ?us = concat (replicate (length (c # calls)) [User, Assistant])"
    using ts(3) by (simp add: user_turn_def assistant_turn_def)
  ultimately show ?case by blast
qed

text \<open>
  What holds of the calls that return: each appends the two turns, and a run of calls
  that all returned appends twice as many turns as calls.
\<close>

lemma returned_calls_append:
  "(process_message e s m = (s', Inr r) \<longrightarrow>
      chat_history s' = chat_history s @
        [\<lparr>role = User, content = m, timestamp = now_user e\<rparr>,
         \<lparr>role = Assistant, content = r_bot_response r, timestamp = now_assistant e\<rparr>]) \<and>
   (completed s calls \<longrightarrow>
      (\<exists>ts. chat_history (run s calls) = chat_history s @ ts \<and>
            length ts = 2 * length calls \<and>
            map role ts = concat (replicate (length calls) [User, Assistant]))) \<and>
   (completed (init_chatbot e0) calls \<longrightarrow>
      length (chat_history (run (init_chatbot e0) calls)) = 2 * length calls)"
proof -
  have 1: "process_message e s m = (s', Inr r) \<longrightarrow>
      chat_history s' = chat_history s @
        [\<lparr>role = User, content = m, timestamp = now_user e\<rparr>,
         \<lparr>role = Assistant, content = r_bot_response r, timestamp = now_assistant e\<rparr>]"
    using process_message_appends [of e s m s' r] by (simp add: user_turn_def assistant_turn_def)
  have 2: "completed s calls \<longrightarrow>
      (\<exists>ts. chat_history (run s calls) = chat_history s @ ts \<and>
            length ts = 2 * length calls \<and>
            map role ts = concat (replicate (length calls) [User, Assistant]))"
    using run_appends by blast
  have 3: "completed (init_chatbot e0) calls \<longrightarrow>
      length (chat_history (run (init_chatbot e0) calls)) = 2 * length calls"
  proof
    assume "completed (init_chatbot e0) calls"
    then obtain ts where "chat_history (run (init_chatbot e0) calls) = chat_history (init_chatbot e0) @ ts"
      "length ts = 2 * length calls"
      using run_appends by blast
    then show "length (chat_history (run (init_chatbot e0) calls)) = 2 * length calls"
      by (simp add: init_chatbot_def)
  qed
  show ?thesis using 1 2 3 by blast
qed

section \<open>Facts about the last step when the composer returns\<close>

lemma details_step_completes:
  assumes ph: "phase s = Some COLLECTING_DETAILS"
    and gen: "generate_intelligent_email e
                (s\<lparr>email_data := (email_data s)\<lparr>additional_details :=
                     Some (if lower (unicode_lower e) m \<in> set [(lit ''none''), (lit ''n/a''), (lit ''no'')] then [] else strip m)\<rparr>\<rparr>)
              = Inr (s2, html)"
  shows "additional_details (email_data (fst (process_message e s m))) =
           Some (if lower (unicode_lower e) m \<in> set [(lit ''none''), (lit ''n/a''), (lit ''no'')] then [] else strip m) \<and>
         phase (fst (process_message e s m)) = Some NORMAL \<and>
         (\<exists>r. snd (process_message e s m) = Inr r \<and>
              r_email_html r = Some html \<and>
              r_email_sent r = Some (send_email_to_department e s2 html) \<and>
              r_status r = (lit ''email_complete'') \<and> \<not> r_workflow_active r) \<and>
         process_message e' (fst (process_message e s m)) m' =
           process_normal e' (fst (process_message e s m)) m'"
proof -
  have act: "email_workflow_active s" using ph by (simp add: phase_details)
  have st: "additional_details (email_data s2) =
           Some (if lower (unicode_lower e) m \<in> set [(lit ''none''), (lit ''n/a''), (lit ''no'')] then [] else strip m)"
    "\<not> email_confirmation_pending s2"
    using details_state [OF ph gen] by simp_all
  have pm: "process_message e s m = process_active e s m"
    using act by (simp add: process_message_def)
  have fs: "fst (process_message e s m) =
      s2\<lparr>email_workflow_active := False,
         chat_history := chat_history s2 @
           [user_turn e m,
            assistant_turn e (generated_header @
              (if send_email_to_department e s2 html then sent_text s2 else not_sent_text s2))]\<rparr>"
    unfolding pm by (simp add: process_active_def details_step [OF ph gen])
  have sn: "\<exists>r. snd (process_message e s m) = Inr r \<and>
              r_email_html r = Some html \<and>
              r_email_sent r = Some (send_email_to_department e s2 html) \<and>
              r_status r = (lit ''email_complete'') \<and> \<not> r_workflow_active r"
    unfolding pm by (simp add: process_active_def details_step [OF ph gen])
  have flags: "\<not> email_workflow_active (fst (process_message e s m))"
    "\<not> email_confirmation_pending (fst (process_message e s m))"
    using st by (simp_all add: fs)
  have "phase (fst (process_message e s m)) = Some NORMAL"
    using flags by (simp add: phase_normal)
  moreover have "process_message e' (fst (process_message e s m)) m' =
           process_normal e' (fst (process_message e s m)) m'"
    using flags by (simp add: process_message_def)
  moreover have "additional_details (email_data (fst (process_message e s m))) =
           Some (if lower (unicode_lower e) m \<in> set [(lit ''none''), (lit ''n/a''), (lit ''no'')] then [] else strip m)"
    using st by (simp add: fs)
  ultimately show ?thesis using sn by blast
qed

section \<open>Facts about the handlers\<close>

lemma history_without_identifier:
  "get_history chatbot_sessions None = (400, HistoryError (lit ''session_id is required''))"
  "get_history chatbot_sessions (Some []) = (400, HistoryError (lit ''session_id is required''))"
  by (simp_all add: get_history_def truthy_def)

section \<open>Facts about the classifier\<close>

lemma analyze_fallback:
  "classify e m c k = LlmRaises msg \<Longrightarrow> analyze_with_gemini e m c k = fallback_error msg"
  "classify e m c k = LlmText t \<Longrightarrow> re_search_object (strip t) = None \<Longrightarrow>
     analyze_with_gemini e m c k = fallback_unparsed"
  "classify e m c k = LlmText t \<Longrightarrow> re_search_object (strip t) = Some obj \<Longrightarrow>
     json_loads e obj = Inl err \<Longrightarrow> analyze_with_gemini e m c k = fallback_error err"
  by (simp_all add: analyze_with_gemini_def)

lemma classifier_fails_fallback:
  "classifier_fails e m c k \<Longrightarrow>
   analyze_with_gemini e m c k = fallback_unparsed \<or>
   (\<exists>msg. analyze_with_gemini e m c k = fallback_error msg)"
  by (auto simp: classifier_fails_def analyze_with_gemini_def
      split: llm_outcome.splits option.splits sum.splits)

lemma fallback_fields:
  "fallback_unparsed (lit ''department'') = Some (PStr (lit ''General Inquiry''))"
  "fallback_unparsed (lit ''confidence'') = Some (PInt 50)"
  "fallback_unparsed (lit ''importance'') = Some (PStr (lit ''Medium''))"
  "fallback_error msg (lit ''department'') = Some (PStr (lit ''General Inquiry''))"
  "fallback_error msg (lit ''confidence'') = Some (PInt 50)"
  "fallback_error msg (lit ''importance'') = Some (PStr (lit ''Medium''))"
  "\<exists>reply. fallback_unparsed (lit ''user_response'') = Some (PStr reply)"
  "\<exists>reply. fallback_error msg (lit ''user_response'') = Some (PStr reply)"
  by (simp_all add: fallback_unparsed_def fallback_error_def)

lemma normal_step_on_fallback:
  assumes ph: "phase s = Some NORMAL"
    and saves: "\<And>i d. chroma_add e i d"
    and fails: "\<And>c k. classifier_fails e m c k"
  shows "identified_department (fst (process_message e s m)) = PStr (lit ''General Inquiry'') \<and>
         department_confidence (fst (process_message e s m)) = PInt 50 \<and>
         importance (email_data (fst (process_message e s m))) = Some (PStr (lit ''Medium'')) \<and>
         phase (fst (process_message e s m)) = Some AWAITING_EMAIL_CONFIRMATION \<and>
         (\<exists>r. snd (process_message e s m) = Inr r \<and>
              r_analysis_department r = PStr (lit ''General Inquiry'') \<and>
              r_analysis_confidence r = PInt 50 \<and> r_status r = (lit ''awaiting_confirmation''))"
proof -
  have flags: "\<not> email_workflow_active s" "\<not> email_confirmation_pending s"
    using ph by (simp_all add: phase_normal)
  have pm: "process_message e s m = process_normal e s m"
    using flags by (simp add: process_message_def)
  have fb: "\<And>c k. analyze_with_gemini e m c k = fallback_unparsed \<or>
                    (\<exists>msg. analyze_with_gemini e m c k = fallback_error msg)"
    using fails by (rule classifier_fails_fallback)
  have dep: "\<And>c k. analyze_with_gemini e m c k (lit ''department'') = Some (PStr (lit ''General Inquiry''))"
    using fb fallback_fields(1,4) by metis
  have conf: "\<And>c k. analyze_with_gemini e m c k (lit ''confidence'') = Some (PInt 50)"
    using fb fallback_fields(2,5) by metis
  have imp: "\<And>c k. analyze_with_gemini e m c k (lit ''importance'') = Some (PStr (lit ''Medium''))"
    using fb fallback_fields(3,6) by metis
  have "\<And>c k. \<exists>reply. analyze_with_gemini e m c k (lit ''user_response'') = Some (PStr reply)"
    using fb fallback_fields(7,8) by metis
  then obtain f where rep: "\<And>c k. analyze_with_gemini e m c k (lit ''user_response'') = Some (PStr (f c k))"
    by metis
  show ?thesis
    unfolding pm process_normal_def
    using flags
    by (simp add: Let_def save_to_chroma_def get_def phase_awaiting saves dep conf imp rep)
qed

lemma llm_down_example:
  "identified_department (fst (process_message env_llm_down session1 (lit ''hello''))) =
     PStr (lit ''General Inquiry'') \<and>
   department_confidence (fst (process_message env_llm_down session1 (lit ''hello''))) = PInt 50 \<and>
   phase (fst (process_message env_llm_down session1 (lit ''hello''))) = Some AWAITING_EMAIL_CONFIRMATION"
proof -
  have p: "phase session1 = Some NORMAL" by (rule sample_phases)
  have s: "\<And>i d. chroma_add env_llm_down i d" by (simp add: env_llm_down_def env_ok_def)
  have f: "\<And>c k. classifier_fails env_llm_down (lit ''hello'') c k"
    by (simp add: classifier_fails_def env_llm_down_def env_ok_def)
  show ?thesis using normal_step_on_fallback [OF p s f] by simp
qed

section \<open>The answer to the offer\<close>

text \<open>
  Claim C1. In the phase \<open>AWAITING_EMAIL_CONFIRMATION\<close> a message is affirmative exactly
  when its lower-cased text, as \<open>str.lower\<close> gives it, holds one of the seven tokens
  yes, yeah, sure, ok, okay, please, send as a contiguous substring (the test
  \<open>word in user_message.lower()\<close>). An affirmative message moves the session to \<open>COLLECTING_NAME\<close>, with the workflow active
  at step 0; any other message moves it to \<open>NORMAL\<close> with the neutral acknowledgment; in
  both cases no slot is touched.
\<close>

theorem confirmation_step:
  assumes "phase s = Some AWAITING_EMAIL_CONFIRMATION"
  shows "((\<exists>w \<in> set affirmative_words. \<exists>pre post. lower (unicode_lower e) m = pre @ w @ post) \<longrightarrow>
            phase (fst (process_message e s m)) = Some COLLECTING_NAME \<and>
            email_workflow_active (fst (process_message e s m)) \<and>
            current_step (fst (process_message e s m)) = 0 \<and>
            email_data (fst (process_message e s m)) = email_data s \<and>
            (\<exists>r. snd (process_message e s m) = Inr r \<and> r_bot_response r = start_prompt \<and>
                 r_workflow_active r)) \<and>
         (\<not> (\<exists>w \<in> set affirmative_words. \<exists>pre post. lower (unicode_lower e) m = pre @ w @ post) \<longrightarrow>
            phase (fst (process_message e s m)) = Some NORMAL \<and>
            email_data (fst (process_message e s m)) = email_data s \<and>
            (\<exists>r. snd (process_message e s m) = Inr r \<and> r_bot_response r = decline_reply \<and>
                 \<not> r_workflow_active r))"
proof -
  have flags: "\<not> email_workflow_active s" "email_confirmation_pending s"
    using assms by (simp_all add: phase_awaiting)
  have pm: "process_message e s m = process_confirmation e s m"
    using flags by (simp add: process_message_def)
  show ?thesis
  proof (cases "affirmative e m")
    case True
    then show ?thesis
      unfolding pm using True affirmative_iff [of e m] flags
      by (simp add: process_confirmation_def phase_name)
  next
    case False
    then show ?thesis
      unfolding pm using False affirmative_iff [of e m] flags
      by (simp add: process_confirmation_def phase_normal)
  qed
qed

text \<open>
  The examples of the specification: "Sure!" is accepted, "no thanks" is not; and "o"
  followed by the Kelvin sign is accepted, its lower-cased text being "ok".
\<close>

theorem confirmation_step_witness:
  "phase awaiting1 = Some AWAITING_EMAIL_CONFIRMATION \<and>
   phase (fst (process_message env_ok awaiting1 (lit ''Sure!''))) = Some COLLECTING_NAME \<and>
   phase (fst (process_message env_ok awaiting1 o_kelvin)) = Some COLLECTING_NAME \<and>
   phase (fst (process_message env_ok awaiting1 (lit ''no thanks''))) = Some NORMAL"
proof -
  have h: "phase awaiting1 = Some AWAITING_EMAIL_CONFIRMATION" by code_simp
  have "affirmative env_ok (lit ''Sure!'')" by code_simp
  then have yes: "\<exists>w \<in> set affirmative_words. \<exists>pre post.
      lower (unicode_lower env_ok) (lit ''Sure!'') = pre @ w @ post"
    using affirmative_iff [of env_ok "lit ''Sure!''"] by blast
  have "affirmative env_ok o_kelvin" by code_simp
  then have kel: "\<exists>w \<in> set affirmative_words. \<exists>pre post.
      lower (unicode_lower env_ok) o_kelvin = pre @ w @ post"
    using affirmative_iff [of env_ok o_kelvin] by blast
  have "\<not> affirmative env_ok (lit ''no thanks'')" by code_simp
  then have no: "\<not> (\<exists>w \<in> set affirmative_words. \<exists>pre post.
      lower (unicode_lower env_ok) (lit ''no thanks'') = pre @ w @ post)"
    using affirmative_iff [of env_ok "lit ''no thanks''"] by blast
  have 1: "phase (fst (process_message env_ok awaiting1 (lit ''Sure!''))) = Some COLLECTING_NAME"
    using confirmation_step [OF h, of env_ok "lit ''Sure!''"] yes by blast
  have 2: "phase (fst (process_message env_ok awaiting1 o_kelvin)) = Some COLLECTING_NAME"
    using confirmation_step [OF h, of env_ok o_kelvin] kel by blast
  have 3: "phase (fst (process_message env_ok awaiting1 (lit ''no thanks''))) = Some NORMAL"
    using confirmation_step [OF h, of env_ok "lit ''no thanks''"] no by blast
  show ?thesis using h 1 2 3 by simp
qed

section \<open>The email step\<close>

text \<open>
  Claim C2. In the phase \<open>COLLECTING_EMAIL\<close> the input, trimmed as \<open>str.strip\<close> trims
  it, is matched against the email pattern. An input of the shape local part, at sign, domain, dot, top-level domain
  is matched as a whole, stored in the email slot, and the session advances to
  \<open>COLLECTING_COMPANY\<close>; any other input leaves the phase and every slot as they are and
  is answered by the reprompt; and so does any sequence of such inputs, however long.
\<close>

theorem email_step:
  assumes "phase s = Some COLLECTING_EMAIL"
  shows "(email_shaped (unicode_alnum e) (strip m) \<longrightarrow>
            match_here (email_pattern (unicode_alnum e)) (strip m) = Some (strip m) \<and>
            email (email_data (fst (process_message e s m))) = Some (strip m) \<and>
            phase (fst (process_message e s m)) = Some COLLECTING_COMPANY) \<and>
         (\<not> email_shaped (unicode_alnum e) (strip m) \<longrightarrow>
            match_here (email_pattern (unicode_alnum e)) (strip m) = None \<and>
            phase (fst (process_message e s m)) = Some COLLECTING_EMAIL \<and>
            email_data (fst (process_message e s m)) = email_data s \<and>
            (\<exists>r. snd (process_message e s m) = Inr r \<and> r_bot_response r = reprompt_email)) \<and>
         (list_all (\<lambda>(e, m). \<not> email_shaped (unicode_alnum e) (strip m)) calls \<longrightarrow>
            phase (run s calls) = Some COLLECTING_EMAIL \<and>
            email_data (run s calls) = email_data s)"
proof -
  have flags: "email_workflow_active s" "\<not> email_confirmation_pending s"
    using assms by (simp_all add: phase_email)
  have 1: "email_shaped (unicode_alnum e) (strip m) \<longrightarrow>
            match_here (email_pattern (unicode_alnum e)) (strip m) = Some (strip m) \<and>
            email (email_data (fst (process_message e s m))) = Some (strip m) \<and>
            phase (fst (process_message e s m)) = Some COLLECTING_COMPANY"
    using flags by (simp add: email_step_state [OF assms] email_match_strip phase_company)
  have 2: "\<not> email_shaped (unicode_alnum e) (strip m) \<longrightarrow>
            match_here (email_pattern (unicode_alnum e)) (strip m) = None \<and>
            phase (fst (process_message e s m)) = Some COLLECTING_EMAIL \<and>
            email_data (fst (process_message e s m)) = email_data s \<and>
            (\<exists>r. snd (process_message e s m) = Inr r \<and> r_bot_response r = reprompt_email)"
    using assms email_step_reply [OF assms, of e m]
    by (auto simp: email_step_state [OF assms] email_match_strip phase_email)
  have 3: "list_all (\<lambda>(e, m). \<not> email_shaped (unicode_alnum e) (strip m)) calls \<longrightarrow>
            phase (run s calls) = Some COLLECTING_EMAIL \<and>
            email_data (run s calls) = email_data s"
    using email_run [OF assms] by blast
  show ?thesis using 1 2 3 by blast
qed

text \<open>
  The examples of the specification: "not-an-email" and the empty string keep the phase;
  "a@b.co" (here between spaces) is stored trimmed and advances. So does an address with
  a letter beyond ASCII that is followed by a no-break space.
\<close>

theorem email_step_witness:
  "phase at_email = Some COLLECTING_EMAIL \<and>
   email (email_data (fst (process_message env_ok at_email (lit '' a@b.co '')))) =
     Some (lit ''a@b.co'') \<and>
   phase (fst (process_message env_ok at_email (lit '' a@b.co ''))) = Some COLLECTING_COMPANY \<and>
   email (email_data (fst (process_message env_ok at_email (jose_address @ [0xA0])))) =
     Some jose_address \<and>
   phase (fst (process_message env_ok at_email (jose_address @ [0xA0]))) =
     Some COLLECTING_COMPANY \<and>
   phase (run at_email [(env_ok, lit ''not-an-email''), (env_ok, [])]) = Some COLLECTING_EMAIL \<and>
   email_data (run at_email [(env_ok, lit ''not-an-email''), (env_ok, [])]) = email_data at_email"
proof -
  have h: "phase at_email = Some COLLECTING_EMAIL" by (rule sample_phases)
  have st: "strip (lit '' a@b.co '') = lit ''a@b.co''" by code_simp
  have sj: "strip (jose_address @ [0xA0]) = jose_address" by code_simp
  have "match_here (email_pattern (unicode_alnum env_ok)) (strip (lit '' a@b.co '')) =
      Some (lit ''a@b.co'')" by code_simp
  then have good: "email_shaped (unicode_alnum env_ok) (strip (lit '' a@b.co ''))"
    by (rule shaped_by_match)
  have "match_here (email_pattern (unicode_alnum env_ok)) (strip (jose_address @ [0xA0])) =
      Some jose_address" by code_simp
  then have jose: "email_shaped (unicode_alnum env_ok) (strip (jose_address @ [0xA0]))"
    by (rule shaped_by_match)
  have "match_here (email_pattern (unicode_alnum env_ok)) (strip (lit ''not-an-email'')) = None"
    by code_simp
  then have b1: "\<not> email_shaped (unicode_alnum env_ok) (strip (lit ''not-an-email''))"
    by (rule unshaped_by_match)
  have "match_here (email_pattern (unicode_alnum env_ok)) (strip []) = None" by code_simp
  then have b2: "\<not> email_shaped (unicode_alnum env_ok) (strip [])" by (rule unshaped_by_match)
  have bad: "list_all (\<lambda>(e, m). \<not> email_shaped (unicode_alnum e) (strip m))
      [(env_ok, lit ''not-an-email''), (env_ok, [])]"
    using b1 b2 by simp
  have 1: "email (email_data (fst (process_message env_ok at_email (lit '' a@b.co '')))) =
      Some (lit ''a@b.co'') \<and>
    phase (fst (process_message env_ok at_email (lit '' a@b.co ''))) = Some COLLECTING_COMPANY"
    using email_step [OF h, of env_ok "lit '' a@b.co ''" "[]"] good st by simp
  have 2: "email (email_data (fst (process_message env_ok at_email (jose_address @ [0xA0])))) =
      Some jose_address \<and>
    phase (fst (process_message env_ok at_email (jose_address @ [0xA0]))) = Some COLLECTING_COMPANY"
    using email_step [OF h, of env_ok "jose_address @ [0xA0]" "[]"] jose sj by simp
  have 3: "phase (run at_email [(env_ok, lit ''not-an-email''), (env_ok, [])]) =
      Some COLLECTING_EMAIL \<and>
    email_data (run at_email [(env_ok, lit ''not-an-email''), (env_ok, [])]) = email_data at_email"
    using email_step [OF h, of env_ok "[]" "[(env_ok, lit ''not-an-email''), (env_ok, [])]"] bad
    by blast
  show ?thesis using h 1 2 3 by blast
qed

section \<open>A classifier response without the expected keys\<close>

text \<open>
  Claim C3. When the call of the classifier raises, its text holds no braces or the JSON
  decoder raises, the fixed fallback is stored and the session moves to
  \<open>AWAITING_EMAIL_CONFIRMATION\<close> (\<open>normal_step_on_fallback\<close>). A response that decodes
  to an object without the key \<open>department\<close> is not turned into the fallback: here the
  classifier answers with the empty object, \<open>process_message\<close> raises \<open>KeyError\<close>
  after the user's turn was appended, no department is stored, the phase stays
  \<open>NORMAL\<close>, and the chat handler answers with status 500.
\<close>

theorem empty_object_raises:
  "snd (process_message env_empty_object session1 (lit ''hello'')) = Inl (KeyError (lit ''department'')) \<and>
   map role (chat_history (fst (process_message env_empty_object session1 (lit ''hello'')))) = [User] \<and>
   identified_department (fst (process_message env_empty_object session1 (lit ''hello''))) = PNone \<and>
   phase (fst (process_message env_empty_object session1 (lit ''hello''))) = Some NORMAL \<and>
   fst (snd (chat env_empty_object Map.empty (Some (lit ''hello'')) (Some (lit ''session-1'')))) = 500"
  by code_simp

section \<open>The turn log after a call that raised\<close>

text \<open>
  Claim C4. The turn log does not always hold two turns per completed exchange. In the
  phase \<open>NORMAL\<close> the user's turn is appended before the first save to the conversation
  store and before the classification is read; when the save raises, or when the decoded
  classification lacks the key \<open>department\<close>, the call raises with the user's turn
  alone in the log, and the chat handler answers 500 while the controller stays
  registered. After the next exchange, which completes, the log of the session holds three
  turns for one completed exchange: user, user, assistant.
\<close>

theorem orphan_user_turn:
  "snd (process_message env_store_down session1 (lit ''hello'')) =
     Inl (ExternalError (lit ''conversations.add'')) \<and>
   map role (chat_history (fst (process_message env_store_down session1 (lit ''hello'')))) = [User] \<and>
   completed (fst (process_message env_store_down session1 (lit ''hello''))) [(env_ok, lit ''hello'')] \<and>
   map role (chat_history (run session1 [(env_store_down, lit ''hello''), (env_ok, lit ''hello'')])) =
     [User, User, Assistant] \<and>
   map role (chat_history (run session1 [(env_empty_object, lit ''hello''), (env_ok, lit ''hello'')])) =
     [User, User, Assistant] \<and>
   fst (snd (chat env_store_down Map.empty (Some (lit ''hello'')) (Some (lit ''session-1'')))) = 500 \<and>
   map_option (\<lambda>c. map role (chat_history c))
     (fst (chat env_store_down Map.empty (Some (lit ''hello'')) (Some (lit ''session-1'')))
        (lit ''session-1'')) = Some [User]"
  by code_simp

section \<open>The last step of the workflow when the composer's object is malformed\<close>

text \<open>
  Claim C5. In the phase \<open>COLLECTING_DETAILS\<close> the input is stored (empty for "none",
  "n/a" and "no" in any case, trimmed otherwise), but the step does not always reach the
  dispatcher and the phase \<open>NORMAL\<close>. Here the composer answers with an object whose
  \<open>paragraph1\<close> is a number: \<open>email_parts.get('paragraph1', '').strip()\<close> raises
  \<open>AttributeError\<close> outside the composer's \<open>try\<close>, the call raises, nothing is sent,
  no turn is logged, and the session stays in \<open>COLLECTING_DETAILS\<close> with the workflow
  active. When the composer returns, the claim holds (\<open>details_step_completes\<close>).
\<close>

theorem composer_crash_blocks_step:
  "phase at_details = Some COLLECTING_DETAILS \<and>
   snd (process_message env_bad_composer at_details (lit ''none'')) = Inl AttributeError \<and>
   phase (fst (process_message env_bad_composer at_details (lit ''none''))) =
     Some COLLECTING_DETAILS \<and>
   email_workflow_active (fst (process_message env_bad_composer at_details (lit ''none''))) \<and>
   additional_details (email_data (fst (process_message env_bad_composer at_details (lit ''none'')))) =
     Some [] \<and>
   chat_history (fst (process_message env_bad_composer at_details (lit ''none''))) =
     chat_history at_details \<and>
   fst (snd (chat env_bad_composer registry_details (Some (lit ''none'')) (Some (lit ''session-1'')))) =
     500"
  by code_simp

section \<open>Reset\<close>




section \<open>The dispatcher never raises\<close>

text \<open>
  Claim C7. \<open>send_email_to_department\<close> returns a boolean, \<open>True\<close> exactly when
  nothing in its body raised: a missing API key, a transport failure and an error status
  (such as a refused authorization) all give \<open>False\<close>. When the composer has returned
  and the dispatcher gives \<open>False\<close>, the workflow step still completes: it returns the
  preview, the flag \<open>complete\<close>, \<open>email_sent = False\<close> and the message saying that
  the email was prepared but could not be sent.
\<close>

theorem dispatch_failure_is_false:
  "(send_email_to_department e s html \<longleftrightarrow> send_attempt e s html = Inr ()) \<and>
   (\<not> truthy (getenv e (lit ''RESEND_API_KEY'')) \<longrightarrow> \<not> send_email_to_department e s html) \<and>
   ((\<forall>rq. \<exists>msg. resend_post e rq = TransportError msg) \<longrightarrow> \<not> send_email_to_department e s html) \<and>
   ((\<forall>rq. \<exists>code. resend_post e rq = HttpStatus code \<and> 400 \<le> code \<and> code < 600) \<longrightarrow>
      \<not> send_email_to_department e s html) \<and>
   (phase s = Some COLLECTING_DETAILS \<and>
    generate_intelligent_email e
      (s\<lparr>email_data := (email_data s)\<lparr>additional_details :=
           Some (if lower (unicode_lower e) m \<in> set [(lit ''none''), (lit ''n/a''), (lit ''no'')] then [] else strip m)\<rparr>\<rparr>)
      = Inr (s2, h) \<and>
    \<not> send_email_to_department e s2 h \<longrightarrow>
      process_workflow_step e s m =
        (s2\<lparr>email_workflow_active := False\<rparr>,
         Inr \<lparr>w_response = generated_header @ not_sent_text s2, w_email_html = Some h,
              w_complete = True, w_email_sent = Some False\<rparr>) \<and>
      (\<exists>r. snd (process_message e s m) = Inr r \<and>
           r_bot_response r = generated_header @ not_sent_text s2 \<and>
           r_email_sent r = Some False \<and> r_status r = (lit ''email_complete'')))"
proof -
  have 1: "send_email_to_department e s html \<longleftrightarrow> send_attempt e s html = Inr ()"
    by (rule send_false_iff)
  have 2: "\<not> truthy (getenv e (lit ''RESEND_API_KEY'')) \<longrightarrow> \<not> send_email_to_department e s html"
    using send_no_key by blast
  have 3: "(\<forall>rq. \<exists>msg. resend_post e rq = TransportError msg) \<longrightarrow>
      \<not> send_email_to_department e s html"
    using send_transport by blast
  have 4: "(\<forall>rq. \<exists>code. resend_post e rq = HttpStatus code \<and> 400 \<le> code \<and> code < 600) \<longrightarrow>
      \<not> send_email_to_department e s html"
    using send_http_error by blast
  have 5: "phase s = Some COLLECTING_DETAILS \<and>
    generate_intelligent_email e
      (s\<lparr>email_data := (email_data s)\<lparr>additional_details :=
           Some (if lower (unicode_lower e) m \<in> set [(lit ''none''), (lit ''n/a''), (lit ''no'')] then [] else strip m)\<rparr>\<rparr>)
      = Inr (s2, h) \<and>
    \<not> send_email_to_department e s2 h \<longrightarrow>
      process_workflow_step e s m =
        (s2\<lparr>email_workflow_active := False\<rparr>,
         Inr \<lparr>w_response = generated_header @ not_sent_text s2, w_email_html = Some h,
              w_complete = True, w_email_sent = Some False\<rparr>) \<and>
      (\<exists>r. snd (process_message e s m) = Inr r \<and>
           r_bot_response r = generated_header @ not_sent_text s2 \<and>
           r_email_sent r = Some False \<and> r_status r = (lit ''email_complete''))"
  proof (intro impI, elim conjE)
    assume ph: "phase s = Some COLLECTING_DETAILS"
      and gen: "generate_intelligent_email e
        (s\<lparr>email_data := (email_data s)\<lparr>additional_details :=
           Some (if lower (unicode_lower e) m \<in> set [(lit ''none''), (lit ''n/a''), (lit ''no'')] then [] else strip m)\<rparr>\<rparr>)
        = Inr (s2, h)"
      and ns: "\<not> send_email_to_department e s2 h"
    have ws: "process_workflow_step e s m =
        (s2\<lparr>email_workflow_active := False\<rparr>,
         Inr \<lparr>w_response = generated_header @ not_sent_text s2, w_email_html = Some h,
              w_complete = True, w_email_sent = Some False\<rparr>)"
      using details_step [OF ph gen] ns by simp
    have act: "email_workflow_active s" using ph by (simp add: phase_details)
    have "\<exists>r. snd (process_message e s m) = Inr r \<and>
           r_bot_response r = generated_header @ not_sent_text s2 \<and>
           r_email_sent r = Some False \<and> r_status r = (lit ''email_complete'')"
      using act by (simp add: process_message_def process_active_def ws)
    then show "process_workflow_step e s m =
        (s2\<lparr>email_workflow_active := False\<rparr>,
         Inr \<lparr>w_response = generated_header @ not_sent_text s2, w_email_html = Some h,
              w_complete = True, w_email_sent = Some False\<rparr>) \<and>
      (\<exists>r. snd (process_message e s m) = Inr r \<and>
           r_bot_response r = generated_header @ not_sent_text s2 \<and>
           r_email_sent r = Some False \<and> r_status r = (lit ''email_complete''))"
      using ws by blast
  qed
  show ?thesis using 1 2 3 4 5 by blast
qed

text \<open>Without an API key and with a refused key the result is \<open>False\<close>, and the step completes.\<close>

theorem dispatch_failure_witness:
  "\<not> truthy (getenv env_nokey (lit ''RESEND_API_KEY'')) \<and>
   \<not> send_email_to_department env_nokey at_details (lit ''<html></html>'') \<and>
   \<not> send_email_to_department env_unauthorized at_details (lit ''<html></html>'') \<and>
   phase at_details = Some COLLECTING_DETAILS \<and>
   (\<exists>r. snd (process_message env_nokey at_details (lit ''none'')) = Inr r \<and>
        r_email_sent r = Some False \<and> r_status r = (lit ''email_complete''))"
proof -
  have k: "\<not> truthy (getenv env_nokey (lit ''RESEND_API_KEY''))"
    by (simp add: env_nokey_def truthy_def)
  have u: "\<forall>rq. \<exists>code. resend_post env_unauthorized rq = HttpStatus code \<and> 400 \<le> code \<and> code < 600"
    by (simp add: env_unauthorized_def env_ok_def)
  have h: "phase at_details = Some COLLECTING_DETAILS" by (rule sample_phases)
  let ?s1 = "at_details\<lparr>email_data := (email_data at_details)\<lparr>additional_details :=
      Some (if lower (unicode_lower env_nokey) (lit ''none'') \<in> set [(lit ''none''), (lit ''n/a''), (lit ''no'')] then [] else strip (lit ''none''))\<rparr>\<rparr>"
  have "compose_parts env_nokey ?s1 = fallback_parts ?s1"
    by (rule compose_fails(1) [of _ _ "(lit ''unavailable'')"]) (simp add: env_nokey_def env_ok_def)
  then obtain s2 h2 where g: "generate_intelligent_email env_nokey ?s1 = Inr (s2, h2)"
    using generate_fallback by blast
  have ns: "\<not> send_email_to_department env_nokey s2 h2"
    using dispatch_failure_is_false [of env_nokey s2 h2] k by blast
  have a: "\<not> send_email_to_department env_nokey at_details (lit ''<html></html>'')"
    using dispatch_failure_is_false [of env_nokey at_details "(lit ''<html></html>'')"] k by blast
  have b: "\<not> send_email_to_department env_unauthorized at_details (lit ''<html></html>'')"
    using dispatch_failure_is_false [of env_unauthorized at_details "(lit ''<html></html>'')"] u by blast
  have c: "\<exists>r. snd (process_message env_nokey at_details (lit ''none'')) = Inr r \<and>
        r_email_sent r = Some False \<and> r_status r = (lit ''email_complete'')"
    using dispatch_failure_is_false [of env_nokey at_details _ "(lit ''none'')" s2 h2] h g ns by blast
  show ?thesis using k a b h c by blast
qed

section \<open>The registry after a reset\<close>

text \<open>
  Claim C8. After a reset request for a registered identifier, when the generator
  returned an identifier that the registry does not hold, the registry still maps the old
  identifier to the controller, now reset and carrying the new identifier, and has no
  entry for the new identifier. A chat request with the new identifier therefore builds a
  new controller with an empty turn log and registers it, the reset one staying under the
  old key; and the session identifier of the old entry no longer equals its key.
\<close>

theorem reset_keeps_registry_key:
  assumes reg: "chatbot_sessions sid = Some c" and sid: "sid \<noteq> []"
    and fresh: "chatbot_sessions (uuid4 e) = None" and ne: "uuid4 e \<noteq> []"
    and key: "truthy (getenv e2 (lit ''GEMINI_API_KEY''))" and con: "chroma_connect e2"
    and msg: "strip msg \<noteq> []"
  shows "snd (snd (reset_handler e chatbot_sessions (Some sid))) = ResetOk (uuid4 e) \<and>
         fst (reset_handler e chatbot_sessions (Some sid)) sid = Some (reset_conversation e c) \<and>
         fst (reset_handler e chatbot_sessions (Some sid)) (uuid4 e) = None \<and>
         session_id (reset_conversation e c) \<noteq> sid \<and>
         get_chatbot e2 (fst (reset_handler e chatbot_sessions (Some sid))) (uuid4 e) =
           ((fst (reset_handler e chatbot_sessions (Some sid)))
              (uuid4 e \<mapsto> (init_chatbot e2)\<lparr>session_id := uuid4 e\<rparr>),
            Inr ((init_chatbot e2)\<lparr>session_id := uuid4 e\<rparr>)) \<and>
         chat_history ((init_chatbot e2)\<lparr>session_id := uuid4 e\<rparr>) = [] \<and>
         fst (chat e2 (fst (reset_handler e chatbot_sessions (Some sid))) (Some msg) (Some (uuid4 e)))
             (uuid4 e) =
           Some (fst (process_message e2 ((init_chatbot e2)\<lparr>session_id := uuid4 e\<rparr>) (strip msg))) \<and>
         fst (chat e2 (fst (reset_handler e chatbot_sessions (Some sid))) (Some msg) (Some (uuid4 e)))
             sid =
           Some (reset_conversation e c)"
proof -
  have diff: "uuid4 e \<noteq> sid" using reg fresh by auto
  define sessions1 where "sessions1 = chatbot_sessions(sid \<mapsto> reset_conversation e c)"
  have rh: "reset_handler e chatbot_sessions (Some sid) = (sessions1, 200, ResetOk (uuid4 e))"
    using reg sid by (simp add: reset_handler_def truthy_def sessions1_def reset_conversation_def)
  have s1: "sessions1 sid = Some (reset_conversation e c)" "sessions1 (uuid4 e) = None"
    using fresh diff by (simp_all add: sessions1_def)
  have id: "session_id (reset_conversation e c) \<noteq> sid"
    using diff by (simp add: reset_conversation_def)
  have gc: "get_chatbot e2 sessions1 (uuid4 e) =
      (sessions1(uuid4 e \<mapsto> (init_chatbot e2)\<lparr>session_id := uuid4 e\<rparr>),
       Inr ((init_chatbot e2)\<lparr>session_id := uuid4 e\<rparr>))"
    using s1 key con by (simp add: get_chatbot_def Let_def)
  have eh: "chat_history ((init_chatbot e2)\<lparr>session_id := uuid4 e\<rparr>) = []"
    by (simp add: init_chatbot_def)
  have ch: "fst (chat e2 sessions1 (Some msg) (Some (uuid4 e))) =
      (sessions1(uuid4 e \<mapsto> (init_chatbot e2)\<lparr>session_id := uuid4 e\<rparr>))
        (uuid4 e \<mapsto> fst (process_message e2 ((init_chatbot e2)\<lparr>session_id := uuid4 e\<rparr>) (strip msg)))"
    using msg ne by (simp add: chat_def gc truthy_def Let_def split: prod.splits sum.splits)
  have c1: "fst (chat e2 sessions1 (Some msg) (Some (uuid4 e))) (uuid4 e) =
      Some (fst (process_message e2 ((init_chatbot e2)\<lparr>session_id := uuid4 e\<rparr>) (strip msg)))"
    by (simp add: ch)
  have c2: "fst (chat e2 sessions1 (Some msg) (Some (uuid4 e))) sid = Some (reset_conversation e c)"
    using diff s1 by (simp add: ch)
  show ?thesis using s1 id gc eh c1 c2 by (simp add: rh)
qed

text \<open>The sample registry after a reset of its session.\<close>

theorem reset_keeps_registry_key_witness:
  "registry1 (lit ''session-1'') = Some at_email \<and>
   fst (reset_handler env_ok registry1 (Some (lit ''session-1''))) (lit ''session-1'') =
     Some (reset_conversation env_ok at_email) \<and>
   fst (reset_handler env_ok registry1 (Some (lit ''session-1''))) (uuid4 env_ok) = None \<and>
   session_id (reset_conversation env_ok at_email) \<noteq> (lit ''session-1'') \<and>
   fst (chat env_ok (fst (reset_handler env_ok registry1 (Some (lit ''session-1'')))) (Some (lit ''hello''))
          (Some (uuid4 env_ok))) (uuid4 env_ok) =
     Some (fst (process_message env_ok ((init_chatbot env_ok)\<lparr>session_id := uuid4 env_ok\<rparr>)
                 (strip (lit ''hello''))))"
proof -
  have a: "registry1 (lit ''session-1'') = Some at_email" by (simp add: registry1_def)
  have b: "(lit ''session-1'') \<noteq> []" by simp
  have c: "registry1 (uuid4 env_ok) = None" by (simp add: registry1_def env_ok_def)
  have d: "uuid4 env_ok \<noteq> []" by (simp add: env_ok_def)
  have k: "truthy (getenv env_ok (lit ''GEMINI_API_KEY''))" by (simp add: env_ok_def truthy_def)
  have n: "chroma_connect env_ok" by (simp add: env_ok_def)
  have m: "strip (lit ''hello'') \<noteq> []" by code_simp
  show ?thesis using reset_keeps_registry_key [OF a b c d k n m] a by simp
qed

section \<open>The name and company steps\<close>

text \<open>
  Claim C9. In the phases \<open>COLLECTING_NAME\<close> and \<open>COLLECTING_COMPANY\<close> every input is
  accepted: the input trimmed as \<open>str.strip\<close> trims it, which is empty for an empty or
  whitespace-only input, is stored in the slot and the workflow advances to the next phase; nothing checks that it
  is not empty, and there is a session that composes its email with an empty name and an
  empty company.
\<close>

theorem name_company_steps:
  "(phase s = Some COLLECTING_NAME \<longrightarrow>
      name (email_data (fst (process_message e s m))) = Some (strip m) \<and>
      phase (fst (process_message e s m)) = Some COLLECTING_EMAIL \<and>
      (\<exists>r. snd (process_message e s m) = Inr r \<and> r_bot_response r = ask_email)) \<and>
   (phase s = Some COLLECTING_COMPANY \<longrightarrow>
      company (email_data (fst (process_message e s m))) = Some (strip m) \<and>
      phase (fst (process_message e s m)) = Some COLLECTING_DETAILS \<and>
      (\<exists>r. snd (process_message e s m) = Inr r \<and> r_bot_response r = ask_details s)) \<and>
   (list_all is_space m \<longrightarrow> strip m = []) \<and>
   (\<exists>s0 calls. phase s0 = Some COLLECTING_NAME \<and> completed s0 calls \<and>
      name (email_data (run s0 calls)) = Some [] \<and>
      company (email_data (run s0 calls)) = Some [] \<and>
      user_preview (email_data (run s0 calls)) \<noteq> None \<and>
      phase (run s0 calls) = Some NORMAL)"
proof -
  have 1: "phase s = Some COLLECTING_NAME \<longrightarrow>
      name (email_data (fst (process_message e s m))) = Some (strip m) \<and>
      phase (fst (process_message e s m)) = Some COLLECTING_EMAIL \<and>
      (\<exists>r. snd (process_message e s m) = Inr r \<and> r_bot_response r = ask_email)"
  proof
    assume h: "phase s = Some COLLECTING_NAME"
    then have "\<not> email_confirmation_pending s" "email_workflow_active s" by (simp_all add: phase_name)
    then show "name (email_data (fst (process_message e s m))) = Some (strip m) \<and>
      phase (fst (process_message e s m)) = Some COLLECTING_EMAIL \<and>
      (\<exists>r. snd (process_message e s m) = Inr r \<and> r_bot_response r = ask_email)"
      using name_step_reply [OF h, of e m] by (auto simp: name_step_state [OF h] phase_email)
  qed
  have 2: "phase s = Some COLLECTING_COMPANY \<longrightarrow>
      company (email_data (fst (process_message e s m))) = Some (strip m) \<and>
      phase (fst (process_message e s m)) = Some COLLECTING_DETAILS \<and>
      (\<exists>r. snd (process_message e s m) = Inr r \<and> r_bot_response r = ask_details s)"
  proof
    assume h: "phase s = Some COLLECTING_COMPANY"
    then have "\<not> email_confirmation_pending s" "email_workflow_active s" by (simp_all add: phase_company)
    then show "company (email_data (fst (process_message e s m))) = Some (strip m) \<and>
      phase (fst (process_message e s m)) = Some COLLECTING_DETAILS \<and>
      (\<exists>r. snd (process_message e s m) = Inr r \<and> r_bot_response r = ask_details s)"
      using company_step_reply [OF h, of e m] by (auto simp: company_step_state [OF h] phase_details)
  qed
  have 3: "list_all is_space m \<longrightarrow> strip m = []"
    using strip_blank by blast
  have "phase at_name = Some COLLECTING_NAME \<and> completed at_name blank_scenario \<and>
      name (email_data (run at_name blank_scenario)) = Some [] \<and>
      company (email_data (run at_name blank_scenario)) = Some [] \<and>
      user_preview (email_data (run at_name blank_scenario)) \<noteq> None \<and>
      phase (run at_name blank_scenario) = Some NORMAL"
    by code_simp
  then have 4: "\<exists>s0 calls. phase s0 = Some COLLECTING_NAME \<and> completed s0 calls \<and>
      name (email_data (run s0 calls)) = Some [] \<and>
      company (email_data (run s0 calls)) = Some [] \<and>
      user_preview (email_data (run s0 calls)) \<noteq> None \<and>
      phase (run s0 calls) = Some NORMAL"
    by blast
  show ?thesis using 1 2 3 4 by blast
qed

text \<open>
  The empty string and a padded name as names, three spaces and an ideographic space as
  companies.
\<close>

theorem name_company_steps_witness:
  "phase at_name = Some COLLECTING_NAME \<and>
   name (email_data (fst (process_message env_ok at_name []))) = Some [] \<and>
   phase (fst (process_message env_ok at_name [])) = Some COLLECTING_EMAIL \<and>
   name (email_data (fst (process_message env_ok at_name jane_padded))) = Some (lit ''Jane'') \<and>
   phase at_company = Some COLLECTING_COMPANY \<and>
   company (email_data (fst (process_message env_ok at_company (lit ''   '')))) = Some [] \<and>
   company (email_data (fst (process_message env_ok at_company ideographic_space))) = Some [] \<and>
   phase (fst (process_message env_ok at_company ideographic_space)) = Some COLLECTING_DETAILS"
proof -
  have n: "phase at_name = Some COLLECTING_NAME" and c: "phase at_company = Some COLLECTING_COMPANY"
    by (rule sample_phases)+
  have s1: "strip [] = []" by (simp add: strip_def)
  have sj: "strip jane_padded = lit ''Jane''" by code_simp
  have sp: "list_all is_space (lit ''   '')" by code_simp
  have si: "list_all is_space ideographic_space" by code_simp
  have s2: "strip (lit ''   '') = []" using name_company_steps [of _ _ "lit ''   ''"] sp by blast
  have s3: "strip ideographic_space = []"
    using name_company_steps [of _ _ ideographic_space] si by blast
  show ?thesis
    using name_company_steps [of at_name env_ok "[]"] name_company_steps [of at_name env_ok jane_padded]
      name_company_steps [of at_company env_ok "lit ''   ''"]
      name_company_steps [of at_company env_ok ideographic_space]
      n c s1 sj s2 s3 by simp
qed

section \<open>The history of an unknown session\<close>

text \<open>
  Claim C10. A history request that carries a session identifier the registry does not
  know is answered with status 200 and a body with an empty history, no identified
  department and no session identifier.
\<close>

theorem history_of_unknown_session:
  assumes "sid \<noteq> []" and "chatbot_sessions sid = None"
  shows "get_history chatbot_sessions (Some sid) = (200, HistoryOk [] PNone None)"
  using assms by (simp add: get_history_def truthy_def)

text \<open>An identifier that the sample registry does not hold.\<close>

theorem history_of_unknown_session_witness:
  "(lit ''session-9'') \<noteq> [] \<and> registry1 (lit ''session-9'') = None \<and>
   get_history registry1 (Some (lit ''session-9'')) = (200, HistoryOk [] PNone None)"
proof -
  have a: "(lit ''session-9'') \<noteq> []" by simp
  have b: "registry1 (lit ''session-9'') = None" by (simp add: registry1_def)
  show ?thesis using history_of_unknown_session [of "(lit ''session-9'')" registry1] a b by simp
qed

end
